theory Spec2Isabelle
  imports Complex_Main "HOL-Library.Sublist"
begin

section \<open>The command line tool \<^verbatim>\<open>neural_style.py\<close>\<close>

text \<open>
  The theory embeds \<^verbatim>\<open>src/neural_style/neural_style.py\<close>: the functions
  \<^verbatim>\<open>train\<close>, \<^verbatim>\<open>check_paths\<close>, \<^verbatim>\<open>stylize\<close> and \<^verbatim>\<open>main\<close>.

  Conventions of the embedding.
  \<^item> A tensor with a leading batch dimension is the list of its rows, so
    \<^verbatim>\<open>len(x)\<close> is \<open>length\<close>, \<^verbatim>\<open>t[:n, :, :]\<close> is \<open>take n\<close> and
    \<^verbatim>\<open>t.repeat(n, 1, 1, 1)\<close> of a single image is \<open>replicate n\<close>. What one row holds
    is never inspected by the script, so rows are of an arbitrary type \<open>'a\<close>.
  \<^item> Python floats are real numbers: rounding is not modelled, and every statement
    below about a loss value is a statement about the exact value.
  \<^item> Python integers are \<open>int\<close>.
  \<^item> Everything the script calls but does not define (torch, torchvision, the modules
    \<^verbatim>\<open>utils\<close>, \<^verbatim>\<open>transformer_net\<close>, \<^verbatim>\<open>vgg16\<close>, the clock, the file system) is a field
    of the record \<open>env\<close>. Calls that can raise return a sum, \<open>Inl\<close> being the exception.
  \<^item> The transformer network together with the state of its Adam optimizer is a value
    of an arbitrary type \<open>'m\<close>.
  \<^item> A function that can raise returns an \<open>outcome\<close>: \<open>Done\<close> with the state it
    returns, or \<open>Abort\<close> with the exception and the state reached when it was raised.
\<close>

subsection \<open>Exceptions and outcomes\<close>

datatype error =
    OSError string
  | IOError string
  | ValueError
  | CudaError
  | ShapeError
  | IndexError
  | ZeroDivisionError
  | SystemExit int

datatype 's outcome = Done 's | Abort error 's

fun state_of :: "'s outcome \<Rightarrow> 's" where
  "state_of (Done s) = s"
| "state_of (Abort e s) = s"

fun raised :: "'s outcome \<Rightarrow> error option" where
  "raised (Done s) = None"
| "raised (Abort e s) = Some e"

text \<open>\<^verbatim>\<open>xs[i]\<close> for a non-negative index: IndexError out of range.\<close>

definition index :: "'x list \<Rightarrow> nat \<Rightarrow> error + 'x" where
  "index xs i = (if i < length xs then Inr (xs ! i) else Inl IndexError)"

subsection \<open>Strings\<close>

text \<open>\<^verbatim>\<open>str(n)\<close> for an integer: decimal digits, a minus sign for a negative number.\<close>

function str_nat :: "nat \<Rightarrow> string" where
  "str_nat n =
     (if n < 10 then [''0123456789'' ! n]
      else str_nat (n div 10) @ [''0123456789'' ! (n mod 10)])"
  by pat_completeness auto
termination
  by (relation "measure (\<lambda>n. n)") auto

declare str_nat.simps [simp del]

definition str_int :: "int \<Rightarrow> string" where
  "str_int i = (if i < 0 then CHR ''-'' # str_nat (nat (- i)) else str_nat (nat i))"

text \<open>\<^verbatim>\<open>str(x)\<close> for a value that is \<^verbatim>\<open>None\<close> or an integer.\<close>

definition str_opt_int :: "int option \<Rightarrow> string" where
  "str_opt_int v = (case v of None \<Rightarrow> ''None'' | Some i \<Rightarrow> str_int i)"

text \<open>\<^verbatim>\<open>s.replace(' ', '_')\<close>.\<close>

definition replace_spaces :: "string \<Rightarrow> string" where
  "replace_spaces s = map (\<lambda>c. if c = CHR '' '' then CHR ''_'' else c) s"

text \<open>\<^verbatim>\<open>os.path.join(a, b)\<close> on a POSIX system.\<close>

definition path_join :: "string \<Rightarrow> string \<Rightarrow> string" where
  "path_join a b =
     (if b \<noteq> [] \<and> hd b = CHR ''/'' then b
      else if a = [] \<or> last a = CHR ''/'' then a @ b
      else a @ ''/'' @ b)"

subsection \<open>Parsed command line\<close>

text \<open>The namespace \<^verbatim>\<open>argparse\<close> returns for the subcommand \<^verbatim>\<open>train\<close>.\<close>

record train_args =
  batch_size :: int
  epochs :: int
  vgg_model_dir :: string
  seed :: int
  cuda :: int
  dataset :: string
  image_size :: int
  style_size :: "int option"
  lr :: real
  style_image :: string
  content_weight :: real
  style_weight :: real
  log_interval :: int
  save_model_dir :: string

text \<open>The namespace for the subcommand \<^verbatim>\<open>eval\<close>.\<close>

record eval_args =
  content_image :: string
  content_scale :: "real option"
  output_image :: string
  model :: string

text \<open>
  \<^verbatim>\<open>args.subcommand\<close> is \<^verbatim>\<open>None\<close>, \<^verbatim>\<open>"train"\<close> or \<^verbatim>\<open>"eval"\<close>; the other attributes
  that exist depend on it.
\<close>

datatype parsed = NoSubcommand | TrainCmd train_args | EvalCmd eval_args

subsection \<open>The world outside the script\<close>

record ('a, 'm) world =
  stdout :: "string list"
  clock :: nat
  dirs :: "string list"
  checkpoints :: "string \<rightharpoonup> 'm"
  images :: "string \<rightharpoonup> 'a"

text \<open>
  \<open>stdout\<close> holds one entry for each call of \<^verbatim>\<open>print\<close>; \<open>clock\<close> counts the readings
  of \<^verbatim>\<open>time.ctime()\<close>; \<open>dirs\<close> are the paths that exist; \<open>checkpoints\<close> are the files
  written by \<^verbatim>\<open>torch.save\<close> and \<open>images\<close> those written by
  \<^verbatim>\<open>utils.tensor_save_bgrimage\<close>.
\<close>

record ('a, 'm) env =
  cuda_is_available :: bool
  ctime :: "nat \<Rightarrow> string"
  sys_version :: string
  torch_version :: string
  str_float :: "real \<Rightarrow> string"
  format_6f :: "real \<Rightarrow> string"
  makedirs :: "string list \<Rightarrow> string \<Rightarrow> error + string list"
  ImageFolder :: "string \<Rightarrow> int \<Rightarrow> error + 'a list"
  randperm :: "nat \<Rightarrow> nat list"
  TransformerNet :: "int \<Rightarrow> 'm"
  train_mode :: "'m \<Rightarrow> 'm"
  eval_mode :: "'m \<Rightarrow> 'm"
  forward :: "'m \<Rightarrow> 'a list \<Rightarrow> 'a list"
  backward_step :: "'m \<Rightarrow> 'a list \<Rightarrow> real \<Rightarrow> 'm"
  load_vgg16 :: "string \<Rightarrow> error + ('a list \<Rightarrow> 'a list list)"
  tensor_load_rgbimage :: "string \<Rightarrow> int option \<Rightarrow> real option \<Rightarrow> error + 'a"
  preprocess_batch :: "'a list \<Rightarrow> 'a list"
  subtract_imagenet_mean_batch :: "'a list \<Rightarrow> 'a list"
  gram_matrix :: "'a list \<Rightarrow> 'a list"
  mse_loss :: "'a list \<Rightarrow> 'a list \<Rightarrow> error + real"
  torch_save :: "string \<Rightarrow> error option"

text \<open>
  The fields, by the call they stand for.
  \<^item> \<open>cuda_is_available\<close>: \<^verbatim>\<open>torch.cuda.is_available()\<close>.
  \<^item> \<open>ctime n\<close>: what \<^verbatim>\<open>time.ctime()\<close> returns at its \<open>n\<close>-th reading.
  \<^item> \<open>str_float\<close>: \<^verbatim>\<open>str\<close> of a float; \<open>format_6f\<close>: the format \<^verbatim>\<open>{:.6f}\<close>.
  \<^item> \<open>makedirs ds p\<close>: \<^verbatim>\<open>os.makedirs(p)\<close> when the paths \<open>ds\<close> exist; the paths that
    exist afterwards, or the exception.
  \<^item> \<open>ImageFolder path size\<close>: the images of \<^verbatim>\<open>datasets.ImageFolder(path, transform)\<close>
    after the transform (scaled and cropped to \<open>size\<close>, multiplied by 255), in the order
    of the dataset; the labels are dropped, as the loop drops them. The images are read
    when the dataset is opened: an image that cannot be read fails the set-up, where the
    script would fail at the batch that contains it.
  \<^item> \<open>randperm n\<close>: the permutation of \<open>[0..<n]\<close> a shuffling loader would draw.
  \<^item> \<open>TransformerNet seed\<close>: a freshly initialised network (with its optimizer) under
    the seed set at the top of \<^verbatim>\<open>train\<close>.
  \<^item> \<open>train_mode\<close>, \<open>eval_mode\<close>: \<^verbatim>\<open>transformer.train()\<close>, \<^verbatim>\<open>transformer.eval()\<close>.
  \<^item> \<open>forward m x\<close>: \<^verbatim>\<open>transformer(x)\<close>.
  \<^item> \<open>backward_step m x l\<close>: the network after \<^verbatim>\<open>total_loss.backward()\<close> and
    \<^verbatim>\<open>optimizer.step()\<close>, where \<open>l\<close> is the value of \<^verbatim>\<open>total_loss\<close> computed from the
    batch \<open>x\<close>.
  \<^item> \<open>load_vgg16 dir\<close>: \<^verbatim>\<open>Vgg16()\<close> with the weights \<^verbatim>\<open>utils.init_vgg16\<close> and
    \<^verbatim>\<open>torch.load\<close> put into it; the result maps a batch to its list of activations.
  \<^item> \<open>tensor_load_rgbimage path size scale\<close>, \<open>preprocess_batch\<close>,
    \<open>subtract_imagenet_mean_batch\<close> (which updates its argument in place: the model
    rebinds the variable), \<open>gram_matrix\<close>: the functions of \<^verbatim>\<open>utils\<close>.
  \<^item> \<open>mse_loss\<close>: \<^verbatim>\<open>torch.nn.MSELoss()\<close>.
  \<^item> \<open>torch_save path\<close>: the exception \<^verbatim>\<open>torch.save\<close> raises writing \<open>path\<close>, if any.
\<close>

definition print :: "string \<Rightarrow> ('a, 'm) world \<Rightarrow> ('a, 'm) world" where
  "print l w = w\<lparr>stdout := stdout w @ [l]\<rparr>"

definition time_ctime :: "('a, 'm) env \<Rightarrow> ('a, 'm) world \<Rightarrow> string \<times> ('a, 'm) world" where
  "time_ctime env w = (ctime env (clock w), w\<lparr>clock := Suc (clock w)\<rparr>)"

text \<open>\<^verbatim>\<open>t.cuda()\<close>: raises when there is no CUDA device.\<close>

definition to_cuda :: "('a, 'm) env \<Rightarrow> error option" where
  "to_cuda env = (if cuda_is_available env then None else Some CudaError)"

subsection \<open>The data loader\<close>

text \<open>
  \<^verbatim>\<open>torch.utils.data.DataLoader(dataset, batch_size=1, shuffle=False, num_workers=0,
  pin_memory=False)\<close>. The keyword dictionary \<^verbatim>\<open>kwargs\<close> of \<^verbatim>\<open>train\<close> has the keys
  \<^verbatim>\<open>num_workers\<close> and \<^verbatim>\<open>pin_memory\<close> or none.
\<close>

record kwargs =
  kw_num_workers :: "int option"
  kw_pin_memory :: "bool option"

record 'a loader =
  ld_dataset :: "'a list"
  ld_batch_size :: int
  ld_shuffle :: bool
  ld_num_workers :: int
  ld_pin_memory :: bool

text \<open>
  A batch size that is not positive is refused: the constructor of current torch raises
  \<^verbatim>\<open>ValueError\<close>; versions that do not check fail on the first batch instead, so in
  either case no batch is processed.
\<close>

definition DataLoader :: "'a list \<Rightarrow> int \<Rightarrow> kwargs \<Rightarrow> error + 'a loader" where
  "DataLoader ds bs kw =
     (if bs \<le> 0 then Inl ValueError
      else Inr \<lparr>ld_dataset = ds, ld_batch_size = bs, ld_shuffle = False,
                ld_num_workers = (case kw_num_workers kw of None \<Rightarrow> 0 | Some n \<Rightarrow> n),
                ld_pin_memory = (case kw_pin_memory kw of None \<Rightarrow> False | Some b \<Rightarrow> b)\<rparr>)"

function batches_of :: "nat \<Rightarrow> 'a list \<Rightarrow> 'a list list" where
  "batches_of n xs =
     (if n = 0 \<or> xs = [] then [] else take n xs # batches_of n (drop n xs))"
  by pat_completeness auto
termination
  by (relation "measure (\<lambda>(n, xs). length xs)") auto

declare batches_of.simps [simp del]

text \<open>
  One pass over the loader: the samples in the order of the dataset, or in the order of
  the drawn permutation when the loader shuffles, cut into batches; the last batch may
  be shorter.
\<close>

definition loader_iter :: "(nat \<Rightarrow> nat list) \<Rightarrow> 'a loader \<Rightarrow> 'a list list" where
  "loader_iter rp ld =
     (let ds = ld_dataset ld;
          order = (if ld_shuffle ld then map (\<lambda>i. ds ! i) (rp (length ds)) else ds)
      in batches_of (nat (ld_batch_size ld)) order)"

subsection \<open>\<^verbatim>\<open>train\<close>: set-up (lines 20 to 77)\<close>

text \<open>
  Lines 23 to 25: a CUDA run is asked for and there is no device; the script warns and
  writes 0 into \<^verbatim>\<open>args.cuda\<close>.
\<close>

definition select_backend ::
  "('a, 'm) env \<Rightarrow> train_args \<Rightarrow> ('a, 'm) world \<Rightarrow> train_args \<times> ('a, 'm) world" where
  "select_backend env a w =
     (if cuda a \<noteq> 0 \<and> \<not> cuda_is_available env
      then (a\<lparr>cuda := 0\<rparr>, print ''WARNING: torch.cuda not available, using CPU.'' w)
      else (a, w))"

text \<open>Lines 27 to 31.\<close>

definition make_kwargs :: "train_args \<Rightarrow> kwargs" where
  "make_kwargs a =
     (if cuda a \<noteq> 0 then \<lparr>kw_num_workers = Some 0, kw_pin_memory = Some False\<rparr>
      else \<lparr>kw_num_workers = None, kw_pin_memory = None\<rparr>)"

text \<open>Lines 33 to 48; \<^verbatim>\<open>print(a, b)\<close> writes the two separated by a blank.\<close>

definition print_header ::
  "('a, 'm) env \<Rightarrow> train_args \<Rightarrow> ('a, 'm) world \<Rightarrow> ('a, 'm) world" where
  "print_header env a w =
     (let w = print ''====================='' w;
          (t, w) = time_ctime env w;
          w = print (''CURRENT TIME: '' @ t) w;
          w = print (''PYTHON VERSION: '' @ sys_version env) w;
          w = print (''PYTORCH VERSION: '' @ torch_version env) w;
          w = print (''BATCH SIZE: '' @ str_int (batch_size a)) w;
          w = print (''EPOCHS: '' @ str_int (epochs a)) w;
          w = print (''RANDOM SEED: '' @ str_int (seed a)) w;
          w = print (''CUDA: '' @ str_int (cuda a)) w;
          w = print (''LEARNING RATE: '' @ str_float env (lr a)) w;
          w = print (''STYLE IMAGE: '' @ style_image a) w;
          w = print (''CONTENT WEIGHT: '' @ str_float env (content_weight a)) w;
          w = print (''STYLE WEIGHT: '' @ str_float env (style_weight a)) w;
          w = print (''DATASET: '' @ dataset a) w;
          w = print (''SAVE-MODEL DIRECTORY: '' @ save_model_dir a) w;
          w = print (''STYLE SIZE: '' @ str_opt_int (style_size a)) w
      in print (''====================='' @ [CHR 0x0A]) w)"

text \<open>
  The local variables of \<^verbatim>\<open>train\<close> that are alive in the epoch loop, with the
  namespace \<^verbatim>\<open>args\<close> and the world. \<^verbatim>\<open>agg_content_loss\<close>, \<^verbatim>\<open>agg_style_loss\<close> and
  \<^verbatim>\<open>count\<close> are unbound until the first epoch binds them; the record holds 0 until
  then.
\<close>

record ('a, 'm) tstate =
  args :: train_args
  world :: "('a, 'm) world"
  train_dataset :: "'a list"
  train_loader :: "'a loader"
  transformer :: 'm
  vgg :: "'a list \<Rightarrow> 'a list list"
  gram_style :: "'a list list"
  agg_content_loss :: real
  agg_style_loss :: real
  count :: int

text \<open>
  Lines 20 to 77. The result is the state at the head of the epoch loop, or the
  exception of the first call that raised, with \<^verbatim>\<open>args\<close> and the world at that point.
\<close>

definition train_init ::
  "('a, 'm) env \<Rightarrow> train_args \<Rightarrow> ('a, 'm) world \<Rightarrow>
     (error \<times> train_args \<times> ('a, 'm) world) + ('a, 'm) tstate" where
  "train_init env a0 w0 =
     (let (a, w) = select_backend env a0 w0;
          kw = make_kwargs a;
          w = print_header env a w
      in case ImageFolder env (dataset a) (image_size a) of
           Inl e \<Rightarrow> Inl (e, a, w)
         | Inr ds \<Rightarrow>
      (case DataLoader ds (batch_size a) kw of
           Inl e \<Rightarrow> Inl (e, a, w)
         | Inr ld \<Rightarrow>
      (case load_vgg16 env (vgg_model_dir a) of
           Inl e \<Rightarrow> Inl (e, a, w)
         | Inr v \<Rightarrow>
      (case (if cuda a \<noteq> 0 then to_cuda env else None) of
           Some e \<Rightarrow> Inl (e, a, w)
         | None \<Rightarrow>
      (case tensor_load_rgbimage env (style_image a) (style_size a) None of
           Inl e \<Rightarrow> Inl (e, a, w)
         | Inr style \<Rightarrow>
      (let style = replicate (nat (batch_size a)) style;
           style = preprocess_batch env style
       in case (if cuda a \<noteq> 0 then to_cuda env else None) of
            Some e \<Rightarrow> Inl (e, a, w)
          | None \<Rightarrow>
       (let style_v = subtract_imagenet_mean_batch env style;
            features_style = v style_v
        in Inr \<lparr>args = a, world = w, train_dataset = ds, train_loader = ld,
                 transformer = TransformerNet env (seed a), vgg = v,
                 gram_style = map (gram_matrix env) features_style,
                 agg_content_loss = 0, agg_style_loss = 0, count = 0\<rparr>)))))))"

subsection \<open>\<^verbatim>\<open>train\<close>: one batch (lines 85 to 126)\<close>

text \<open>
  Lines 88 to 100: the preprocessed batch, the activations of the stylized batch and
  those of the clone of the content batch.
\<close>

definition batch_features ::
  "('a, 'm) env \<Rightarrow> ('a, 'm) tstate \<Rightarrow> 'a list \<Rightarrow>
     error + ('a list \<times> 'a list list \<times> 'a list list)" where
  "batch_features env s x0 =
     (let x = preprocess_batch env x0
      in case (if cuda (args s) \<noteq> 0 then to_cuda env else None) of
           Some er \<Rightarrow> Inl er
         | None \<Rightarrow>
      (let y = forward env (transformer s) x;
           xc = x;
           y = subtract_imagenet_mean_batch env y;
           xc = subtract_imagenet_mean_batch env xc
       in Inr (x, vgg s y, vgg s xc)))"

text \<open>
  Lines 102 and 104: \<open>content_mse\<close> is the value of
  \<^verbatim>\<open>mse_loss(features_y[1], f_xc_c)\<close>, \<open>content_loss_of\<close> that of \<^verbatim>\<open>content_loss\<close>.
\<close>

definition content_mse ::
  "('a, 'm) env \<Rightarrow> 'a list list \<Rightarrow> 'a list list \<Rightarrow> error + real" where
  "content_mse env features_y features_xc =
     (case index features_xc 1 of
        Inl er \<Rightarrow> Inl er
      | Inr f_xc_c \<Rightarrow>
     (case index features_y 1 of
        Inl er \<Rightarrow> Inl er
      | Inr f_y \<Rightarrow> mse_loss env f_y f_xc_c))"

definition content_loss_of ::
  "('a, 'm) env \<Rightarrow> train_args \<Rightarrow> 'a list list \<Rightarrow> 'a list list \<Rightarrow> error + real" where
  "content_loss_of env a features_y features_xc =
     (case content_mse env features_y features_xc of
        Inl er \<Rightarrow> Inl er
      | Inr v \<Rightarrow> Inr (content_weight a * v))"

text \<open>
  Lines 106 to 110, the loop over \<^verbatim>\<open>range(len(features_y))\<close>: \<open>acc\<close> is
  \<^verbatim>\<open>style_loss\<close>, \<open>ms\<close> the indices still to visit. \<open>layer_mse\<close> is the value of
  \<^verbatim>\<open>mse_loss(gram_y, gram_s[:n_batch, :, :])\<close> at the index \<open>m\<close>.
\<close>

definition layer_mse ::
  "('a, 'm) env \<Rightarrow> 'a list list \<Rightarrow> 'a list list \<Rightarrow> nat \<Rightarrow> nat \<Rightarrow> error + real" where
  "layer_mse env gs features_y n_batch m =
     (case index gs m of
        Inl er \<Rightarrow> Inl er
      | Inr gram_s \<Rightarrow>
     (case index features_y m of
        Inl er \<Rightarrow> Inl er
      | Inr f \<Rightarrow> mse_loss env (gram_matrix env f) (take n_batch gram_s)))"

fun style_loss_loop ::
  "('a, 'm) env \<Rightarrow> train_args \<Rightarrow> 'a list list \<Rightarrow> 'a list list \<Rightarrow> nat \<Rightarrow> real \<Rightarrow> nat list \<Rightarrow>
     error + real" where
  "style_loss_loop env a gs features_y n_batch acc [] = Inr acc"
| "style_loss_loop env a gs features_y n_batch acc (m # ms) =
     (case layer_mse env gs features_y n_batch m of
        Inl er \<Rightarrow> Inl er
      | Inr v \<Rightarrow>
          style_loss_loop env a gs features_y n_batch (acc + style_weight a * v) ms)"

text \<open>
  Lines 88 to 110 for the batch \<open>x0\<close>: the preprocessed batch with the values of
  \<^verbatim>\<open>content_loss\<close> and \<^verbatim>\<open>style_loss\<close>.
\<close>

definition batch_losses ::
  "('a, 'm) env \<Rightarrow> ('a, 'm) tstate \<Rightarrow> 'a list \<Rightarrow> error + ('a list \<times> real \<times> real)" where
  "batch_losses env s x0 =
     (case batch_features env s x0 of
        Inl er \<Rightarrow> Inl er
      | Inr (x, features_y, features_xc) \<Rightarrow>
     (case content_loss_of env (args s) features_y features_xc of
        Inl er \<Rightarrow> Inl er
      | Inr content_loss \<Rightarrow>
     (case style_loss_loop env (args s) (gram_style s) features_y (length x0) 0
             [0..<length features_y] of
        Inl er \<Rightarrow> Inl er
      | Inr style_loss \<Rightarrow> Inr (x, content_loss, style_loss))))"

text \<open>Lines 119 to 126.\<close>

definition log_message ::
  "('a, 'm) env \<Rightarrow> string \<Rightarrow> nat \<Rightarrow> nat \<Rightarrow> ('a, 'm) tstate \<Rightarrow> string" where
  "log_message env t e batch_id s =
     t @ [CHR 0x09] @ ''Epoch '' @ str_int (int e + 1) @ '':'' @ [CHR 0x09] @
     ''['' @ str_int (count s) @ ''/'' @ str_int (int (length (train_dataset s))) @ '']'' @
     [CHR 0x09] @ ''content: '' @
       format_6f env (agg_content_loss s / (real batch_id + 1)) @
     [CHR 0x09] @ ''style: '' @
       format_6f env (agg_style_loss s / (real batch_id + 1)) @
     [CHR 0x09] @ ''total: '' @
       format_6f env ((agg_content_loss s + agg_style_loss s) / (real batch_id + 1))"

definition log_progress ::
  "('a, 'm) env \<Rightarrow> nat \<Rightarrow> nat \<Rightarrow> ('a, 'm) tstate \<Rightarrow> ('a, 'm) tstate outcome" where
  "log_progress env e batch_id s =
     (if log_interval (args s) = 0 then Abort ZeroDivisionError s
      else if (int batch_id + 1) mod log_interval (args s) = 0
      then (let (t, w) = time_ctime env (world s)
            in Done (s\<lparr>world := print (log_message env t e batch_id s) w\<rparr>))
      else Done s)"

text \<open>
  Lines 112 to 117: \<^verbatim>\<open>total_loss\<close> is handed to the optimizer and the two running
  sums grow by \<^verbatim>\<open>content_loss\<close> and \<^verbatim>\<open>style_loss\<close>.
\<close>

definition apply_losses ::
  "('a, 'm) env \<Rightarrow> ('a, 'm) tstate \<Rightarrow> 'a list \<Rightarrow> real \<Rightarrow> real \<Rightarrow> ('a, 'm) tstate" where
  "apply_losses env s x content_loss style_loss =
     (let total_loss = content_loss + style_loss;
          s = s\<lparr>transformer := backward_step env (transformer s) x total_loss\<rparr>;
          s = s\<lparr>agg_content_loss := agg_content_loss s + content_loss\<rparr>
      in s\<lparr>agg_style_loss := agg_style_loss s + style_loss\<rparr>)"

text \<open>The body of the loop over the batches, for the batch \<open>x0\<close> numbered \<open>batch_id\<close>.\<close>

definition train_batch ::
  "('a, 'm) env \<Rightarrow> nat \<Rightarrow> ('a, 'm) tstate \<Rightarrow> nat \<times> 'a list \<Rightarrow> ('a, 'm) tstate outcome" where
  "train_batch env e s0 b =
     (let batch_id = fst b; x0 = snd b;
          n_batch = length x0;
          s = s0\<lparr>count := count s0 + int n_batch\<rparr>
      in case batch_losses env s x0 of
           Inl er \<Rightarrow> Abort er s
         | Inr (x, content_loss, style_loss) \<Rightarrow>
             log_progress env e batch_id (apply_losses env s x content_loss style_loss))"

subsection \<open>\<^verbatim>\<open>train\<close>: the loops and the checkpoint (lines 79 to 136)\<close>

fun train_batches ::
  "('a, 'm) env \<Rightarrow> nat \<Rightarrow> ('a, 'm) tstate \<Rightarrow> (nat \<times> 'a list) list \<Rightarrow> ('a, 'm) tstate outcome" where
  "train_batches env e s [] = Done s"
| "train_batches env e s (b # bs) =
     (case train_batch env e s b of
        Abort er s' \<Rightarrow> Abort er s'
      | Done s' \<Rightarrow> train_batches env e s' bs)"

text \<open>Lines 80 to 84: what an epoch does before its first batch, and the batches it visits.\<close>

definition epoch_start :: "('a, 'm) env \<Rightarrow> ('a, 'm) tstate \<Rightarrow> ('a, 'm) tstate" where
  "epoch_start env s =
     s\<lparr>transformer := train_mode env (transformer s),
       agg_content_loss := 0, agg_style_loss := 0, count := 0\<rparr>"

definition epoch_batches :: "('a, 'm) env \<Rightarrow> ('a, 'm) tstate \<Rightarrow> (nat \<times> 'a list) list" where
  "epoch_batches env s = enumerate 0 (loader_iter (randperm env) (train_loader s))"

fun train_epochs ::
  "('a, 'm) env \<Rightarrow> ('a, 'm) tstate \<Rightarrow> nat list \<Rightarrow> ('a, 'm) tstate outcome" where
  "train_epochs env s [] = Done s"
| "train_epochs env s (e # es) =
     (case train_batches env e (epoch_start env s) (epoch_batches env s) of
        Abort er s' \<Rightarrow> Abort er s'
      | Done s' \<Rightarrow> train_epochs env s' es)"

text \<open>Line 131.\<close>

definition save_model_filename ::
  "('a, 'm) env \<Rightarrow> train_args \<Rightarrow> string \<Rightarrow> string" where
  "save_model_filename env a t =
     ''epoch_'' @ str_int (epochs a) @ ''_'' @ replace_spaces t @ ''_'' @
     str_float env (content_weight a) @ ''_'' @ str_float env (style_weight a) @ ''.model''"

text \<open>Lines 129 to 136.\<close>

definition save_model ::
  "('a, 'm) env \<Rightarrow> ('a, 'm) tstate \<Rightarrow> (train_args \<times> ('a, 'm) world) outcome" where
  "save_model env s0 =
     (let s = s0\<lparr>transformer := eval_mode env (transformer s0)\<rparr>;
          (t, w) = time_ctime env (world s);
          save_model_path = path_join (save_model_dir (args s)) (save_model_filename env (args s) t)
      in case torch_save env save_model_path of
           Some er \<Rightarrow> Abort er (args s, w)
         | None \<Rightarrow>
             Done (args s,
               print (CHR 0x0A # ''Done :)'')
                 (w\<lparr>checkpoints := (checkpoints w)(save_model_path \<mapsto> transformer s)\<rparr>)))"

definition train ::
  "('a, 'm) env \<Rightarrow> train_args \<Rightarrow> ('a, 'm) world \<Rightarrow> (train_args \<times> ('a, 'm) world) outcome" where
  "train env a0 w0 =
     (case train_init env a0 w0 of
        Inl (er, a, w) \<Rightarrow> Abort er (a, w)
      | Inr s0 \<Rightarrow>
     (case train_epochs env s0 [0..<nat (epochs (args s0))] of
        Abort er s \<Rightarrow> Abort er (args s, world s)
      | Done s \<Rightarrow> save_model env s))"

subsection \<open>\<^verbatim>\<open>check_paths\<close>, \<^verbatim>\<open>stylize\<close> and \<^verbatim>\<open>main\<close>\<close>

text \<open>
  The handler of \<^verbatim>\<open>check_paths\<close>: an \<^verbatim>\<open>OSError\<close> is printed and the process exits
  with 1; any other exception passes.
\<close>

definition on_oserror :: "error \<Rightarrow> ('a, 'm) world \<Rightarrow> ('a, 'm) world outcome" where
  "on_oserror er w =
     (case er of
        OSError msg \<Rightarrow> Abort (SystemExit 1) (print msg w)
      | _ \<Rightarrow> Abort er w)"

definition ensure_dir ::
  "('a, 'm) env \<Rightarrow> string \<Rightarrow> ('a, 'm) world \<Rightarrow> error + ('a, 'm) world" where
  "ensure_dir env p w =
     (if p \<in> set (dirs w) then Inr w
      else case makedirs env (dirs w) p of
             Inl er \<Rightarrow> Inl er
           | Inr ds \<Rightarrow> Inr (w\<lparr>dirs := ds\<rparr>))"

definition check_paths ::
  "('a, 'm) env \<Rightarrow> train_args \<Rightarrow> ('a, 'm) world \<Rightarrow> ('a, 'm) world outcome" where
  "check_paths env a w =
     (case ensure_dir env (vgg_model_dir a) w of
        Inl er \<Rightarrow> on_oserror er w
      | Inr w1 \<Rightarrow>
     (case ensure_dir env (save_model_dir a) w1 of
        Inl er \<Rightarrow> on_oserror er w1
      | Inr w2 \<Rightarrow> Done w2))"

text \<open>
  \<^verbatim>\<open>torch.load(args.model)\<close> reads a file \<^verbatim>\<open>torch.save\<close> wrote;
  \<^verbatim>\<open>utils.tensor_save_bgrimage\<close> writes the first row of the output.
\<close>

definition stylize ::
  "('a, 'm) env \<Rightarrow> eval_args \<Rightarrow> ('a, 'm) world \<Rightarrow> ('a, 'm) world outcome" where
  "stylize env a w =
     (case tensor_load_rgbimage env (content_image a) None (content_scale a) of
        Inl er \<Rightarrow> Abort er w
      | Inr img \<Rightarrow>
     (let x = preprocess_batch env [img]
      in case checkpoints w (model a) of
           None \<Rightarrow> Abort (IOError (model a)) w
         | Some style_model \<Rightarrow>
      (case index (forward env style_model x) 0 of
           Inl er \<Rightarrow> Abort er w
         | Inr out \<Rightarrow> Done (w\<lparr>images := (images w)(output_image a \<mapsto> out)\<rparr>))))"

definition main ::
  "('a, 'm) env \<Rightarrow> parsed \<Rightarrow> ('a, 'm) world \<Rightarrow> ('a, 'm) world outcome" where
  "main env p w =
     (case p of
        NoSubcommand \<Rightarrow>
          Abort (SystemExit 1) (print ''ERROR: specify either train or eval'' w)
      | TrainCmd a \<Rightarrow>
          (case check_paths env a w of
             Abort er w1 \<Rightarrow> Abort er w1
           | Done w1 \<Rightarrow>
          (case train env a w1 of
             Abort er r \<Rightarrow> Abort er (snd r)
           | Done r \<Rightarrow> Done (snd r)))
      | EvalCmd a \<Rightarrow> stylize env a w)"

text \<open>
  The exit status of the process: 0 when \<^verbatim>\<open>main\<close> returns, the argument of
  \<^verbatim>\<open>sys.exit\<close>, and 1 for an exception nobody caught.
\<close>

definition exit_code :: "'s outcome \<Rightarrow> int" where
  "exit_code r =
     (case raised r of
        None \<Rightarrow> 0
      | Some (SystemExit n) \<Rightarrow> n
      | Some _ \<Rightarrow> 1)"

subsection \<open>Quantities the properties are stated with\<close>

text \<open>
  What the two loops never assign: a state \<open>s\<close> agrees with \<open>s0\<close> on the namespace, the
  dataset, the loader, the extractor and the style Gram matrices.
\<close>

definition loop_frame :: "('a, 'm) tstate \<Rightarrow> ('a, 'm) tstate \<Rightarrow> bool" where
  "loop_frame s0 s \<longleftrightarrow>
     args s = args s0 \<and> train_dataset s = train_dataset s0 \<and>
     train_loader s = train_loader s0 \<and> vgg s = vgg s0 \<and> gram_style s = gram_style s0"


text \<open>
  The values of \<^verbatim>\<open>mse_loss(gram_y, gram_s[:n_batch, :, :])\<close> that the loop of lines 106
  to 110 computes, in the order of the indices \<open>ms\<close>.
\<close>

fun style_mses ::
  "('a, 'm) env \<Rightarrow> 'a list list \<Rightarrow> 'a list list \<Rightarrow> nat \<Rightarrow> nat list \<Rightarrow> error + real list" where
  "style_mses env gs features_y n_batch [] = Inr []"
| "style_mses env gs features_y n_batch (m # ms) =
     (case layer_mse env gs features_y n_batch m of
        Inl er \<Rightarrow> Inl er
      | Inr v \<Rightarrow>
     (case style_mses env gs features_y n_batch ms of
        Inl er \<Rightarrow> Inl er
      | Inr vs \<Rightarrow> Inr (v # vs)))"

text \<open>
  For the batch \<open>x0\<close> in the state \<open>s\<close>: the value of \<^verbatim>\<open>mse_loss\<close> at line 104 and the sum
  over the layers of its values at line 110, before any weight is applied.
\<close>

definition batch_mses ::
  "('a, 'm) env \<Rightarrow> ('a, 'm) tstate \<Rightarrow> 'a list \<Rightarrow> error + (real \<times> real)" where
  "batch_mses env s x0 =
     (case batch_features env s x0 of
        Inl er \<Rightarrow> Inl er
      | Inr (x, features_y, features_xc) \<Rightarrow>
     (case content_mse env features_y features_xc of
        Inl er \<Rightarrow> Inl er
      | Inr mc \<Rightarrow>
     (case style_mses env (gram_style s) features_y (length x0) [0..<length features_y] of
        Inl er \<Rightarrow> Inl er
      | Inr vs \<Rightarrow> Inr (mc, sum_list vs))))"

text \<open>
  The pairs \<open>batch_mses\<close> of the successive batches of an epoch, each taken in the state
  the loop has reached when it comes to that batch.
\<close>

fun mse_trace ::
  "('a, 'm) env \<Rightarrow> nat \<Rightarrow> ('a, 'm) tstate \<Rightarrow> (nat \<times> 'a list) list \<Rightarrow> (real \<times> real) list" where
  "mse_trace env e s [] = []"
| "mse_trace env e s (b # bs) =
     (case batch_mses env s (snd b) of
        Inl er \<Rightarrow> []
      | Inr p \<Rightarrow>
          p # (case train_batch env e s b of
                 Abort er s' \<Rightarrow> []
               | Done s' \<Rightarrow> mse_trace env e s' bs))"

text \<open>
  What the script relies on in its collaborators as far as the batch dimension goes:
  preprocessing, mean subtraction, the network and \<^verbatim>\<open>gram_matrix\<close> keep the number of
  rows; the extractor \<open>v\<close> returns the same number of layers for every batch, each
  with one row for each row of the batch; and \<^verbatim>\<open>mse_loss\<close> accepts two
  arguments with the same number of rows.
\<close>

definition batch_dim_contract :: "('a, 'm) env \<Rightarrow> ('a list \<Rightarrow> 'a list list) \<Rightarrow> bool" where
  "batch_dim_contract env v \<longleftrightarrow>
     (\<forall>x. length (preprocess_batch env x) = length x) \<and>
     (\<forall>x. length (subtract_imagenet_mean_batch env x) = length x) \<and>
     (\<forall>m x. length (forward env m x) = length x) \<and>
     (\<forall>f. length (gram_matrix env f) = length f) \<and>
     (\<forall>x y. length (v x) = length (v y)) \<and>
     (\<forall>x. \<forall>f \<in> set (v x). length f = length x) \<and>
     (\<forall>f g. length f = length g \<longrightarrow> (\<exists>r. mse_loss env f g = Inr r))"

subsection \<open>A small environment\<close>

text \<open>
  An environment in which every function above can be evaluated: images and
  activations are single numbers, the extractor has two layers, the network adds its
  parameter to every pixel, and there is no CUDA device.
\<close>

definition demo_mse :: "real list \<Rightarrow> real list \<Rightarrow> error + real" where
  "demo_mse xs ys =
     (if length xs = length ys
      then Inr (sum_list (map (\<lambda>p. (fst p - snd p) * (fst p - snd p)) (zip xs ys)))
      else Inl ShapeError)"

definition demo_env :: "(real, real) env" where
  "demo_env =
     \<lparr>cuda_is_available = False,
      ctime = (\<lambda>n. ''Wed Nov  4 12:00:00 2026''),
      sys_version = ''3.6'',
      torch_version = ''0.1.12'',
      str_float = (\<lambda>r. if r = 1 then ''1.0'' else if r = 2 then ''2.0'' else ''5.0''),
      format_6f = (\<lambda>r. ''0.000000''),
      makedirs = (\<lambda>ds p. if p = ''ro'' then Inl (OSError ''Permission denied'') else Inr (p # ds)),
      ImageFolder = (\<lambda>p n. if p = ''data'' then Inr [1, 2, 3] else Inl (IOError p)),
      randperm = (\<lambda>n. rev [0..<n]),
      TransformerNet = (\<lambda>n. 0),
      train_mode = (\<lambda>m. m),
      eval_mode = (\<lambda>m. m),
      forward = (\<lambda>m x. map (\<lambda>v. v + m + 1) x),
      backward_step = (\<lambda>m x l. m - l),
      load_vgg16 = (\<lambda>p. Inr (\<lambda>x. [x, map (\<lambda>v. 2 * v) x])),
      tensor_load_rgbimage = (\<lambda>p n r. Inr 7),
      preprocess_batch = (\<lambda>x. x),
      subtract_imagenet_mean_batch = (\<lambda>x. x),
      gram_matrix = (\<lambda>x. x),
      mse_loss = demo_mse,
      torch_save = (\<lambda>p. None)\<rparr>"

definition demo_args :: train_args where
  "demo_args =
     \<lparr>batch_size = 2, epochs = 1, vgg_model_dir = ''vgg'', seed = 42, cuda = 0,
      dataset = ''data'', image_size = 256, style_size = None, lr = 1,
      style_image = ''mosaic.jpg'', content_weight = 2, style_weight = 5,
      log_interval = 1, save_model_dir = ''out''\<rparr>"

definition demo_world :: "(real, real) world" where
  "demo_world =
     \<lparr>stdout = [], clock = 0, dirs = [], checkpoints = Map.empty, images = Map.empty\<rparr>"

definition demo_state :: "(real, real) tstate" where
  "demo_state = projr (train_init demo_env demo_args demo_world)"

section \<open>Properties\<close>

subsection \<open>What the loops leave alone\<close>

lemma loop_frame_refl: "loop_frame s s"
  by (simp add: loop_frame_def)

lemma loop_frame_trans: "loop_frame s0 s1 \<Longrightarrow> loop_frame s1 s2 \<Longrightarrow> loop_frame s0 s2"
  by (simp add: loop_frame_def)

lemma log_progress_frame: "loop_frame s (state_of (log_progress env e i s))"
  by (simp add: log_progress_def loop_frame_def split: prod.splits)

lemma apply_losses_frame: "loop_frame s (apply_losses env s x c st)"
  by (simp add: apply_losses_def loop_frame_def Let_def)

lemma train_batch_frame: "loop_frame s (state_of (train_batch env e s b))"
proof (cases "batch_losses env (s\<lparr>count := count s + int (length (snd b))\<rparr>) (snd b)")
  case (Inl er)
  then show ?thesis by (simp add: train_batch_def Let_def loop_frame_def)
next
  case (Inr r)
  obtain x c st where r: "r = (x, c, st)" by (cases r) auto
  let ?s = "s\<lparr>count := count s + int (length (snd b))\<rparr>"
  have "loop_frame s ?s" by (simp add: loop_frame_def)
  moreover have "loop_frame ?s (apply_losses env ?s x c st)" by (rule apply_losses_frame)
  moreover have "loop_frame (apply_losses env ?s x c st)
      (state_of (log_progress env e (fst b) (apply_losses env ?s x c st)))"
    by (rule log_progress_frame)
  ultimately show ?thesis using Inr r
    by (simp add: train_batch_def Let_def) (blast intro: loop_frame_trans)
qed

lemma train_batches_frame: "loop_frame s (state_of (train_batches env e s bs))"
proof (induction bs arbitrary: s)
  case Nil
  show ?case by (simp add: loop_frame_refl)
next
  case (Cons b bs)
  show ?case
  proof (cases "train_batch env e s b")
    case (Done s')
    with train_batch_frame [of s env e b] have "loop_frame s s'" by simp
    with Cons [of s'] Done show ?thesis by (simp) (blast intro: loop_frame_trans)
  next
    case (Abort er s')
    with train_batch_frame [of s env e b] show ?thesis by simp
  qed
qed

lemma epoch_start_frame: "loop_frame s (epoch_start env s)"
  by (simp add: epoch_start_def loop_frame_def)

lemma train_epochs_frame: "loop_frame s (state_of (train_epochs env s es))"
proof (induction es arbitrary: s)
  case Nil
  show ?case by (simp add: loop_frame_refl)
next
  case (Cons e es)
  have step: "loop_frame s (state_of (train_batches env e (epoch_start env s) (epoch_batches env s)))"
    using epoch_start_frame train_batches_frame by (blast intro: loop_frame_trans)
  show ?case
  proof (cases "train_batches env e (epoch_start env s) (epoch_batches env s)")
    case (Done s')
    with step have "loop_frame s s'" by simp
    with Cons [of s'] Done show ?thesis by simp (blast intro: loop_frame_trans)
  next
    case (Abort er s')
    with step show ?thesis by simp
  qed
qed

subsection \<open>The style loop as a weighted sum\<close>

lemma style_loss_loop_mses:
  "style_loss_loop env a gs fy n acc ms =
     (case style_mses env gs fy n ms of
        Inl er \<Rightarrow> Inl er
      | Inr vs \<Rightarrow> Inr (acc + style_weight a * sum_list vs))"
  by (induction ms arbitrary: acc) (auto split: sum.splits simp: algebra_simps)

lemma style_mses_nth:
  "style_mses env gs fy n ms = Inr vs \<Longrightarrow>
     length vs = length ms \<and> (\<forall>i<length ms. layer_mse env gs fy n (ms ! i) = Inr (vs ! i))"
proof (induction ms arbitrary: vs)
  case Nil
  then show ?case by simp
next
  case (Cons m ms)
  then show ?case
    by (auto split: sum.splits simp: nth_Cons split: nat.splits)
qed

subsection \<open>The running sums, step by step\<close>

lemma batch_features_count [simp]:
  "batch_features env (s\<lparr>count := c\<rparr>) x0 = batch_features env s x0"
  by (simp add: batch_features_def Let_def cong: option.case_cong)

lemma batch_mses_count [simp]:
  "batch_mses env (s\<lparr>count := c\<rparr>) x0 = batch_mses env s x0"
  by (simp add: batch_mses_def cong: sum.case_cong prod.case_cong)

lemma batch_losses_count [simp]:
  "batch_losses env (s\<lparr>count := c\<rparr>) x0 = batch_losses env s x0"
  by (simp add: batch_losses_def cong: sum.case_cong prod.case_cong)

lemma batch_losses_mses:
  assumes "batch_losses env s x0 = Inr (x, c, st)"
  shows "\<exists>mc ms. batch_mses env s x0 = Inr (mc, ms) \<and>
           c = content_weight (args s) * mc \<and> st = style_weight (args s) * ms"
  using assms
  by (auto simp: batch_losses_def batch_mses_def content_loss_of_def style_loss_loop_mses
           split: sum.splits prod.splits)

lemma log_progress_keeps:
  "agg_content_loss (state_of (log_progress env e i s)) = agg_content_loss s"
  "agg_style_loss (state_of (log_progress env e i s)) = agg_style_loss s"
  "transformer (state_of (log_progress env e i s)) = transformer s"
  by (simp_all add: log_progress_def split: prod.splits)

lemma train_batch_sums:
  assumes "train_batch env e s b = Done s'"
  shows "\<exists>mc ms. batch_mses env s (snd b) = Inr (mc, ms) \<and>
           agg_content_loss s' = agg_content_loss s + content_weight (args s) * mc \<and>
           agg_style_loss s' = agg_style_loss s + style_weight (args s) * ms"
proof -
  let ?s = "s\<lparr>count := count s + int (length (snd b))\<rparr>"
  from assms obtain x c st where bl: "batch_losses env ?s (snd b) = Inr (x, c, st)"
    and lp: "log_progress env e (fst b) (apply_losses env ?s x c st) = Done s'"
    by (auto simp: train_batch_def Let_def split: sum.splits prod.splits)
  from batch_losses_mses [OF bl] obtain mc ms where
    m: "batch_mses env s (snd b) = Inr (mc, ms)"
       "c = content_weight (args s) * mc" "st = style_weight (args s) * ms"
    by auto
  from lp log_progress_keeps(1,2) [of env e "fst b" "apply_losses env ?s x c st"]
  have "agg_content_loss s' = agg_content_loss s + c" "agg_style_loss s' = agg_style_loss s + st"
    by (simp_all add: apply_losses_def Let_def)
  with m show ?thesis by simp
qed

lemma train_batches_sums:
  assumes "train_batches env e s bs = Done s'"
  shows "length (mse_trace env e s bs) = length bs \<and>
         agg_content_loss s' =
           agg_content_loss s + content_weight (args s) * sum_list (map fst (mse_trace env e s bs)) \<and>
         agg_style_loss s' =
           agg_style_loss s + style_weight (args s) * sum_list (map snd (mse_trace env e s bs))"
  using assms
proof (induction bs arbitrary: s)
  case Nil
  then show ?case by simp
next
  case (Cons b bs)
  from Cons.prems obtain s1 where b: "train_batch env e s b = Done s1"
    and rest: "train_batches env e s1 bs = Done s'"
    by (auto split: outcome.splits)
  from train_batch_sums [OF b] obtain mc ms where
    m: "batch_mses env s (snd b) = Inr (mc, ms)"
       "agg_content_loss s1 = agg_content_loss s + content_weight (args s) * mc"
       "agg_style_loss s1 = agg_style_loss s + style_weight (args s) * ms"
    by auto
  from train_batch_frame [of s env e b] b have a: "args s1 = args s"
    by (simp add: loop_frame_def)
  from Cons.IH [OF rest] m a b show ?case
    by (simp add: algebra_simps)
qed

subsection \<open>What the set-up establishes\<close>


lemma select_backend_cuda:
  "cuda (fst (select_backend env a w)) \<noteq> 0 \<Longrightarrow> cuda_is_available env"
  by (simp add: select_backend_def split: if_splits)

lemma train_init_Inr:
  assumes "train_init env a0 w0 = Inr s"
  shows "args s = fst (select_backend env a0 w0)"
    and "world s = print_header env (args s) (snd (select_backend env a0 w0))"
    and "ImageFolder env (dataset (args s)) (image_size (args s)) = Inr (train_dataset s)"
    and "DataLoader (train_dataset s) (batch_size (args s)) (make_kwargs (args s)) =
           Inr (train_loader s)"
    and "load_vgg16 env (vgg_model_dir (args s)) = Inr (vgg s)"
    and "\<exists>style. tensor_load_rgbimage env (style_image (args s)) (style_size (args s)) None =
           Inr style \<and>
           gram_style s =
             map (gram_matrix env)
               (vgg s (subtract_imagenet_mean_batch env
                  (preprocess_batch env (replicate (nat (batch_size (args s))) style))))"
    and "transformer s = TransformerNet env (seed (args s))"
  using assms
  by (auto simp: train_init_def Let_def split: prod.splits sum.splits option.splits)



lemma select_backend_keeps:
  "batch_size (fst (select_backend env a w)) = batch_size a"
  "dataset (fst (select_backend env a w)) = dataset a"
  "image_size (fst (select_backend env a w)) = image_size a"
  "vgg_model_dir (fst (select_backend env a w)) = vgg_model_dir a"
  "style_image (fst (select_backend env a w)) = style_image a"
  "style_size (fst (select_backend env a w)) = style_size a"
  "epochs (fst (select_backend env a w)) = epochs a"
  "seed (fst (select_backend env a w)) = seed a"
  "content_weight (fst (select_backend env a w)) = content_weight a"
  "style_weight (fst (select_backend env a w)) = style_weight a"
  "save_model_dir (fst (select_backend env a w)) = save_model_dir a"
  by (simp_all add: select_backend_def)

subsection \<open>What a run leaves in the world\<close>















text \<open>The three ways \<^verbatim>\<open>train\<close> can end.\<close>

lemma train_cases:
  obtains (init_fails) er a' w' where "train_init env a w = Inl (er, a', w')"
      "train env a w = Abort er (a', w')"
  | (loop_fails) s0 er s where "train_init env a w = Inr s0"
      "train_epochs env s0 [0..<nat (epochs (args s0))] = Abort er s"
      "train env a w = Abort er (args s, world s)"
  | (loop_done) s0 s where "train_init env a w = Inr s0"
      "train_epochs env s0 [0..<nat (epochs (args s0))] = Done s"
      "train env a w = save_model env s"
proof (cases "train_init env a w")
  case (Inl r)
  obtain er a' w' where "r = (er, a', w')" by (cases r) auto
  with Inl init_fails show ?thesis by (simp add: train_def)
next
  case (Inr s0)
  show ?thesis
  proof (cases "train_epochs env s0 [0..<nat (epochs (args s0))]")
    case (Done s)
    with Inr loop_done show ?thesis by (simp add: train_def)
  next
    case (Abort er s)
    with Inr loop_fails show ?thesis by (simp add: train_def)
  qed
qed



subsection \<open>The small environment, evaluated\<close>

lemma outcome_Done: "raised r = None \<Longrightarrow> r = Done (state_of r)"
  by (cases r) simp_all

lemma demo_init:
  "train_init demo_env demo_args demo_world =
     Inr \<lparr>args = demo_args,
          world = print_header demo_env demo_args demo_world,
          train_dataset = [1, 2, 3],
          train_loader = \<lparr>ld_dataset = [1, 2, 3], ld_batch_size = 2, ld_shuffle = False,
                           ld_num_workers = 0, ld_pin_memory = False\<rparr>,
          transformer = 0, vgg = (\<lambda>x. [x, map (\<lambda>v. 2 * v) x]),
          gram_style = [[7, 7], [14, 14]],
          agg_content_loss = 0, agg_style_loss = 0, count = 0\<rparr>"
  by (simp add: train_init_def select_backend_def demo_args_def demo_env_def make_kwargs_def
        DataLoader_def Let_def numeral_2_eq_2)

lemma demo_state_fields:
  "args demo_state = demo_args"
  "transformer demo_state = 0"
  "vgg demo_state = (\<lambda>x. [x, map (\<lambda>v. 2 * v) x])"
  "gram_style demo_state = [[7, 7], [14, 14]]"
  "train_dataset demo_state = [1, 2, 3]"
  "train_loader demo_state = \<lparr>ld_dataset = [1, 2, 3], ld_batch_size = 2, ld_shuffle = False,
                           ld_num_workers = 0, ld_pin_memory = False\<rparr>"
  by (simp_all add: demo_state_def demo_init)

lemma demo_init_state: "train_init demo_env demo_args demo_world = Inr demo_state"
  by (simp add: demo_state_def demo_init)

lemma demo_epoch_batches: "epoch_batches demo_env demo_state = [(0, [1, 2]), (1, [3])]"
proof -
  have "batches_of 2 [1, 2, 3 :: real] = [[1, 2], [3]]"
    by (simp add: batches_of.simps)
  then show ?thesis
    by (simp add: epoch_batches_def loader_iter_def demo_state_fields enumerate_eq_zip upt_rec)
qed

lemma demo_env_fields:
  "cuda_is_available demo_env = False"
  "ctime demo_env = (\<lambda>n. ''Wed Nov  4 12:00:00 2026'')"
  "str_float demo_env = (\<lambda>r. if r = 1 then ''1.0'' else if r = 2 then ''2.0'' else ''5.0'')"
  "format_6f demo_env = (\<lambda>r. ''0.000000'')"
  "makedirs demo_env =
     (\<lambda>ds p. if p = ''ro'' then Inl (OSError ''Permission denied'') else Inr (p # ds))"
  "ImageFolder demo_env = (\<lambda>p n. if p = ''data'' then Inr [1, 2, 3] else Inl (IOError p))"
  "randperm demo_env = (\<lambda>n. rev [0..<n])"
  "TransformerNet demo_env = (\<lambda>n. 0)"
  "train_mode demo_env = (\<lambda>m. m)"
  "eval_mode demo_env = (\<lambda>m. m)"
  "forward demo_env = (\<lambda>m x. map (\<lambda>v. v + m + 1) x)"
  "backward_step demo_env = (\<lambda>m x l. m - l)"
  "load_vgg16 demo_env = (\<lambda>p. Inr (\<lambda>x. [x, map (\<lambda>v. 2 * v) x]))"
  "tensor_load_rgbimage demo_env = (\<lambda>p n r. Inr 7)"
  "preprocess_batch demo_env = (\<lambda>x. x)"
  "subtract_imagenet_mean_batch demo_env = (\<lambda>x. x)"
  "gram_matrix demo_env = (\<lambda>x. x)"
  "mse_loss demo_env = demo_mse"
  "torch_save demo_env = (\<lambda>p. None)"
  by (simp_all add: demo_env_def)

lemma demo_args_fields:
  "batch_size demo_args = 2" "epochs demo_args = 1" "cuda demo_args = 0"
  "content_weight demo_args = 2" "style_weight demo_args = 5" "log_interval demo_args = 1"
  "seed demo_args = 42" "dataset demo_args = ''data''" "save_model_dir demo_args = ''out''"
  "vgg_model_dir demo_args = ''vgg''"
  by (simp_all add: demo_args_def)

lemma demo_start_fields:
  "args (epoch_start demo_env demo_state) = demo_args"
  "transformer (epoch_start demo_env demo_state) = 0"
  "vgg (epoch_start demo_env demo_state) = (\<lambda>x. [x, map (\<lambda>v. 2 * v) x])"
  "gram_style (epoch_start demo_env demo_state) = [[7, 7], [14, 14]]"
  "agg_content_loss (epoch_start demo_env demo_state) = 0"
  "agg_style_loss (epoch_start demo_env demo_state) = 0"
  "count (epoch_start demo_env demo_state) = 0"
  by (simp_all add: epoch_start_def demo_state_fields demo_env_fields)

lemma demo_features:
  "batch_features demo_env (epoch_start demo_env demo_state) [1, 2] =
     Inr ([1, 2], [[2, 3], [4, 6]], [[1, 2], [2, 4]])"
  by (simp add: batch_features_def demo_start_fields Let_def demo_env_fields demo_args_fields)

lemmas demo_eval =
  batch_mses_def batch_losses_def content_loss_of_def content_mse_def layer_mse_def index_def
  demo_mse_def Let_def demo_env_fields demo_args_fields demo_start_fields upt_rec

lemma demo_mses:
  "batch_mses demo_env (epoch_start demo_env demo_state) [1, 2] = Inr (8, 205)"
  by (simp add: demo_eval demo_features)

lemma demo_losses:
  "batch_losses demo_env (epoch_start demo_env demo_state) [1, 2] = Inr ([1, 2], 16, 1025)"
  by (simp add: demo_eval demo_features)

lemma demo_first_batch:
  "raised (train_batches demo_env 0 (epoch_start demo_env demo_state) [(0, [1, 2])]) = None"
  "agg_content_loss (state_of (train_batches demo_env 0 (epoch_start demo_env demo_state) [(0, [1, 2])])) = 16"
  by (simp_all add: train_batch_def demo_losses log_progress_def apply_losses_def time_ctime_def
        Let_def demo_args_fields demo_start_fields demo_env_fields)


lemma demo_take1: "take 1 (epoch_batches demo_env demo_state) = [(0, [1, 2])]"
  by (simp add: demo_epoch_batches)

lemma demo_trace:
  "mse_trace demo_env 0 (epoch_start demo_env demo_state) [(0, [1, 2])] = [(8, 205)]"
  by (simp add: demo_mses split: outcome.splits)

section \<open>The claims\<close>

subsection \<open>C1: the running sums\<close>

text \<open>
  C1, as the code has it. After the first \<open>k\<close> batches of an epoch have been processed,
  \<^verbatim>\<open>agg_content_loss\<close> is the sum over these batches of
  \<^verbatim>\<open>content_weight\<close> times the value of \<^verbatim>\<open>mse_loss\<close> at line 104, and
  \<^verbatim>\<open>agg_style_loss\<close> is the sum over these batches of \<^verbatim>\<open>style_weight\<close> times the sum
  over the layers of the values of \<^verbatim>\<open>mse_loss\<close> at line 110: the sums hold the weighted
  losses. Hence \<^verbatim>\<open>agg_content_loss / k\<close> is the arithmetic mean of the first \<open>k\<close>
  weighted content losses.
\<close>

theorem running_sums_hold_weighted_losses:
  assumes run: "train_batches env e (epoch_start env s) (take k (epoch_batches env s)) = Done sk"
    and k: "k \<le> length (epoch_batches env s)"
  shows "length (mse_trace env e (epoch_start env s) (take k (epoch_batches env s))) = k \<and>
         agg_content_loss sk =
           sum_list (map (\<lambda>p. content_weight (args s) * fst p)
             (mse_trace env e (epoch_start env s) (take k (epoch_batches env s)))) \<and>
         agg_style_loss sk =
           sum_list (map (\<lambda>p. style_weight (args s) * snd p)
             (mse_trace env e (epoch_start env s) (take k (epoch_batches env s)))) \<and>
         agg_content_loss sk / real k =
           sum_list (map (\<lambda>p. content_weight (args s) * fst p)
             (mse_trace env e (epoch_start env s) (take k (epoch_batches env s)))) / real k"
proof -
  have z: "agg_content_loss (epoch_start env s) = 0" "agg_style_loss (epoch_start env s) = 0"
    "args (epoch_start env s) = args s"
    by (simp_all add: epoch_start_def)
  from train_batches_sums [OF run] z k show ?thesis
    by (simp add: sum_list_const_mult o_def)
qed

text \<open>
  The first batch of the small environment, where \<^verbatim>\<open>content_weight\<close> is 2 and
  \<^verbatim>\<open>style_weight\<close> is 5.
\<close>

theorem running_sums_hold_weighted_losses_witness:
  "agg_content_loss
     (state_of (train_batches demo_env 0 (epoch_start demo_env demo_state)
        (take 1 (epoch_batches demo_env demo_state)))) = content_weight demo_args * 8 \<and>
   agg_style_loss
     (state_of (train_batches demo_env 0 (epoch_start demo_env demo_state)
        (take 1 (epoch_batches demo_env demo_state)))) = style_weight demo_args * 205"
proof -
  have d: "train_batches demo_env 0 (epoch_start demo_env demo_state)
             (take 1 (epoch_batches demo_env demo_state)) =
           Done (state_of (train_batches demo_env 0 (epoch_start demo_env demo_state)
             (take 1 (epoch_batches demo_env demo_state))))"
    by (rule outcome_Done) (simp only: demo_take1 demo_first_batch)
  have k: "1 \<le> length (epoch_batches demo_env demo_state)"
    by (simp add: demo_epoch_batches)
  from running_sums_hold_weighted_losses [OF d k] show ?thesis
    unfolding demo_take1 demo_trace by (simp add: demo_state_fields)
qed

text \<open>
  C1 as stated, with sums of unweighted values, fails there: after one batch
  \<^verbatim>\<open>agg_content_loss\<close> is 16, and the value of \<^verbatim>\<open>mse_loss\<close> for that batch is 8.
\<close>

theorem running_sums_unweighted_counterexample:
  "agg_content_loss
     (state_of (train_batches demo_env 0 (epoch_start demo_env demo_state)
        (take 1 (epoch_batches demo_env demo_state)))) = 16 \<and>
   sum_list (map fst (mse_trace demo_env 0 (epoch_start demo_env demo_state)
        (take 1 (epoch_batches demo_env demo_state)))) = 8 \<and>
   agg_content_loss
     (state_of (train_batches demo_env 0 (epoch_start demo_env demo_state)
        (take 1 (epoch_batches demo_env demo_state)))) \<noteq>
   sum_list (map fst (mse_trace demo_env 0 (epoch_start demo_env demo_state)
        (take 1 (epoch_batches demo_env demo_state))))"
  unfolding demo_take1 demo_trace demo_first_batch by simp


subsection \<open>C2: the objective handed to the optimizer\<close>

lemma content_mse_Inr:
  assumes "content_mse env fy fxc = Inr mc"
  shows "1 < length fy \<and> 1 < length fxc \<and> mse_loss env (fy ! 1) (fxc ! 1) = Inr mc"
  using assms by (auto simp: content_mse_def index_def split: if_splits)

lemma layer_mse_Inr:
  assumes "layer_mse env gs fy n m = Inr v"
  shows "m < length gs \<and> m < length fy \<and>
         mse_loss env (gram_matrix env (fy ! m)) (take n (gs ! m)) = Inr v"
  using assms by (auto simp: layer_mse_def index_def split: if_splits)

lemma batch_features_Inr:
  assumes "batch_features env s x0 = Inr (x, fy, fxc)"
  shows "x = preprocess_batch env x0"
    "fy = vgg s (subtract_imagenet_mean_batch env (forward env (transformer s) x))"
    "fxc = vgg s (subtract_imagenet_mean_batch env x)"
  using assms by (auto simp: batch_features_def Let_def split: option.splits)

lemma train_batch_transformer:
  assumes "batch_losses env s x0 = Inr (x, c, st)"
  shows "transformer (state_of (train_batch env e s (i, x0))) =
           backward_step env (transformer s) x (c + st)"
  using assms
  by (simp add: train_batch_def Let_def log_progress_keeps apply_losses_def)

text \<open>
  C2. Whenever lines 88 to 110 succeed for a batch \<open>x0\<close>, with \<open>features_y\<close> the
  activations of the stylized batch and \<open>features_xc\<close> those of the content batch:
  \<^verbatim>\<open>content_loss\<close> is \<^verbatim>\<open>content_weight\<close> times the value \<open>mc\<close> of \<^verbatim>\<open>mse_loss\<close> on the
  layers of index 1; \<^verbatim>\<open>style_loss\<close> is \<^verbatim>\<open>style_weight\<close> times the sum (not the mean) over
  all layers \<open>m\<close> of the value of \<^verbatim>\<open>mse_loss\<close> on the Gram matrix of \<open>features_y[m]\<close>
  and the first \<^verbatim>\<open>n_batch\<close> rows of \<open>gram_style[m]\<close>; and the optimizer step of that
  batch is taken on the sum of the two. Which tensors carry gradients is outside the
  embedding: the theorem is about the value.
\<close>

theorem total_loss_is_weighted_sum:
  assumes "batch_losses env s x0 = Inr (x, content_loss, style_loss)"
  shows "\<exists>features_y features_xc mc vs.
           x = preprocess_batch env x0 \<and>
           features_y =
             vgg s (subtract_imagenet_mean_batch env (forward env (transformer s) x)) \<and>
           features_xc = vgg s (subtract_imagenet_mean_batch env x) \<and>
           1 < length features_y \<and> 1 < length features_xc \<and>
           mse_loss env (features_y ! 1) (features_xc ! 1) = Inr mc \<and>
           length vs = length features_y \<and>
           (\<forall>m<length features_y.
              m < length (gram_style s) \<and>
              mse_loss env (gram_matrix env (features_y ! m))
                (take (length x0) (gram_style s ! m)) = Inr (vs ! m)) \<and>
           content_loss = content_weight (args s) * mc \<and>
           style_loss = style_weight (args s) * sum_list vs \<and>
           (\<forall>e i. transformer (state_of (train_batch env e s (i, x0))) =
              backward_step env (transformer s) x
                (content_weight (args s) * mc + style_weight (args s) * sum_list vs))"
proof -
  from assms obtain fy fxc where
    bf: "batch_features env s x0 = Inr (x, fy, fxc)"
    and cl: "content_loss_of env (args s) fy fxc = Inr content_loss"
    and sl: "style_loss_loop env (args s) (gram_style s) fy (length x0) 0 [0..<length fy] =
               Inr style_loss"
    by (auto simp: batch_losses_def split: sum.splits prod.splits)
  from cl obtain mc where mc: "content_mse env fy fxc = Inr mc"
    and c: "content_loss = content_weight (args s) * mc"
    by (auto simp: content_loss_of_def split: sum.splits)
  from sl obtain vs where vs: "style_mses env (gram_style s) fy (length x0) [0..<length fy] = Inr vs"
    and st: "style_loss = style_weight (args s) * sum_list vs"
    by (auto simp: style_loss_loop_mses split: sum.splits)
  from style_mses_nth [OF vs] have len: "length vs = length fy"
    and each: "\<forall>m<length fy. layer_mse env (gram_style s) fy (length x0) m = Inr (vs ! m)"
    by auto
  have layers: "\<forall>m<length fy.
      m < length (gram_style s) \<and>
      mse_loss env (gram_matrix env (fy ! m)) (take (length x0) (gram_style s ! m)) = Inr (vs ! m)"
    using each layer_mse_Inr by blast
  have bw: "\<forall>e i. transformer (state_of (train_batch env e s (i, x0))) =
      backward_step env (transformer s) x
        (content_weight (args s) * mc + style_weight (args s) * sum_list vs)"
    using train_batch_transformer [OF assms] c st by simp
  from batch_features_Inr [OF bf] content_mse_Inr [OF mc] len layers c st bw
  show ?thesis by blast
qed

text \<open>The first batch of the small environment: the losses 16 and 1025.\<close>

theorem total_loss_is_weighted_sum_witness:
  "\<exists>mc vs. mse_loss demo_env [4, 6] [2, 4] = Inr mc \<and>
     mse_loss demo_env [2, 3] (take 2 [7, 7]) = Inr (vs ! 0) \<and>
     mse_loss demo_env [4, 6] (take 2 [14, 14]) = Inr (vs ! 1) \<and>
     (16 :: real) = content_weight demo_args * mc \<and>
     (1025 :: real) = style_weight demo_args * sum_list vs"
proof -
  from total_loss_is_weighted_sum [OF demo_losses] obtain fy fxc mc vs where
    f: "fy = vgg (epoch_start demo_env demo_state)
             (subtract_imagenet_mean_batch demo_env
               (forward demo_env (transformer (epoch_start demo_env demo_state)) [1, 2]))"
       "fxc = vgg (epoch_start demo_env demo_state) (subtract_imagenet_mean_batch demo_env [1, 2])"
    and m: "mse_loss demo_env (fy ! 1) (fxc ! 1) = Inr mc"
    and l: "\<forall>m<length fy.
              m < length (gram_style (epoch_start demo_env demo_state)) \<and>
              mse_loss demo_env (gram_matrix demo_env (fy ! m))
                (take (length [1, 2 :: real]) (gram_style (epoch_start demo_env demo_state) ! m)) =
              Inr (vs ! m)"
    and c: "(16 :: real) = content_weight (args (epoch_start demo_env demo_state)) * mc"
           "(1025 :: real) = style_weight (args (epoch_start demo_env demo_state)) * sum_list vs"
    by blast
  have fy: "fy = [[2, 3], [4, 6]]" and fxc: "fxc = [[1, 2], [2, 4]]"
    using f by (simp_all add: demo_start_fields demo_env_fields)
  from l [rule_format, of 0] l [rule_format, of 1] fy
  have "mse_loss demo_env [2, 3] (take 2 [7, 7]) = Inr (vs ! 0)"
    "mse_loss demo_env [4, 6] (take 2 [14, 14]) = Inr (vs ! 1)"
    by (simp_all add: demo_start_fields demo_env_fields)
  with m c fy fxc show ?thesis
    by (simp add: demo_start_fields) blast
qed

subsection \<open>C3: the last, shorter batch\<close>


lemma style_mses_total:
  assumes "\<forall>m\<in>set ms. \<exists>v. layer_mse env gs fy n m = Inr v"
  shows "\<exists>vs. style_mses env gs fy n ms = Inr vs"
  using assms by (induction ms) auto

lemma batch_features_total:
  assumes "cuda (args s) \<noteq> 0 \<longrightarrow> cuda_is_available env"
  shows "batch_features env s x0 =
     Inr (preprocess_batch env x0,
          vgg s (subtract_imagenet_mean_batch env
                   (forward env (transformer s) (preprocess_batch env x0))),
          vgg s (subtract_imagenet_mean_batch env (preprocess_batch env x0)))"
  using assms by (simp add: batch_features_def Let_def to_cuda_def)

lemma demo_contract: "batch_dim_contract demo_env (vgg demo_state)"
  by (simp add: batch_dim_contract_def demo_env_fields demo_state_fields demo_mse_def)

text \<open>
  C3. Let the set-up have succeeded and let \<open>s\<close> be a state the loops can be in (it
  agrees with the state after the set-up on what the loops never assign). Under the
  contract \<open>batch_dim_contract\<close> on the collaborators, for every batch of \<open>B\<close> rows with
  \<open>B\<close> at most the configured batch size, so in particular for a last batch that is
  shorter: every style Gram matrix has as many rows as the configured batch size, its
  slice \<^verbatim>\<open>gram_s[:n_batch, :, :]\<close> has exactly \<open>B\<close> rows, every index the loop of
  lines 106 to 110 uses is in range, and the loop returns a value.
\<close>

theorem partial_batch_sliced_without_error:
  assumes init: "train_init env a w = Inr s0"
    and frame: "loop_frame s0 s"
    and contract: "batch_dim_contract env (vgg s0)"
    and B: "length x0 \<le> nat (batch_size a)"
  shows "\<exists>x features_y features_xc style_loss.
           batch_features env s x0 = Inr (x, features_y, features_xc) \<and>
           (\<forall>m<length features_y.
              m < length (gram_style s) \<and>
              length (gram_style s ! m) = nat (batch_size a) \<and>
              length (take (length x0) (gram_style s ! m)) = length x0) \<and>
           style_loss_loop env (args s) (gram_style s) features_y (length x0) 0
             [0..<length features_y] = Inr style_loss"
proof -
  from frame have fr: "args s = args s0" "vgg s = vgg s0" "gram_style s = gram_style s0"
    by (simp_all add: loop_frame_def)
  from train_init_Inr(1) [OF init] have a: "args s0 = fst (select_backend env a w)" .
  with fr have "cuda (args s) \<noteq> 0 \<longrightarrow> cuda_is_available env"
    using select_backend_cuda by metis
  note bf = batch_features_total [OF this, of x0]
  define y where "y = subtract_imagenet_mean_batch env
                   (forward env (transformer s) (preprocess_batch env x0))"
  define fy where "fy = vgg s0 y"
  from contract have ylen: "length y = length x0"
    by (simp add: y_def batch_dim_contract_def)
  from train_init_Inr(6) [OF init] a obtain style where
    gs: "gram_style s0 = map (gram_matrix env)
           (vgg s0 (subtract_imagenet_mean_batch env
              (preprocess_batch env (replicate (nat (batch_size a)) style))))"
    by (auto simp: select_backend_keeps)
  define sb where "sb = subtract_imagenet_mean_batch env
                          (preprocess_batch env (replicate (nat (batch_size a)) style))"
  from contract have sblen: "length sb = nat (batch_size a)"
    by (simp add: sb_def batch_dim_contract_def)
  from contract have layers: "length (vgg s0 sb) = length fy"
    by (simp add: fy_def batch_dim_contract_def)
  from contract have c_rows: "\<And>x f. f \<in> set (vgg s0 x) \<Longrightarrow> length f = length x"
    by (simp add: batch_dim_contract_def)
  have rows: "\<And>m. m < length fy \<Longrightarrow> length (vgg s0 sb ! m) = nat (batch_size a)"
    using c_rows [of _ sb] layers sblen by simp
  have yrows: "\<And>m. m < length fy \<Longrightarrow> length (fy ! m) = length x0"
    using c_rows [of _ y] ylen by (simp add: fy_def)
  have glen: "length (gram_style s0) = length fy"
    using gs layers by (simp add: sb_def)
  have grows: "\<And>m. m < length fy \<Longrightarrow> length (gram_style s0 ! m) = nat (batch_size a)"
    using gs layers rows contract by (simp add: sb_def batch_dim_contract_def)
  have slice: "\<And>m. m < length fy \<Longrightarrow>
      length (take (length x0) (gram_style s0 ! m)) = length x0"
    using grows B by simp
  have "\<And>m. m < length fy \<Longrightarrow>
      \<exists>v. layer_mse env (gram_style s0) fy (length x0) m = Inr v"
  proof -
    fix m assume m: "m < length fy"
    have "length (gram_matrix env (fy ! m)) = length (take (length x0) (gram_style s0 ! m))"
      using contract yrows [OF m] slice [OF m] by (simp add: batch_dim_contract_def)
    with contract have "\<exists>v. mse_loss env (gram_matrix env (fy ! m))
        (take (length x0) (gram_style s0 ! m)) = Inr v"
      unfolding batch_dim_contract_def by blast
    with m glen show "\<exists>v. layer_mse env (gram_style s0) fy (length x0) m = Inr v"
      by (simp add: layer_mse_def index_def)
  qed
  then have "\<exists>vs. style_mses env (gram_style s0) fy (length x0) [0..<length fy] = Inr vs"
    by (intro style_mses_total) simp
  then obtain vs where "style_mses env (gram_style s0) fy (length x0) [0..<length fy] = Inr vs" ..
  then have loop: "style_loss_loop env (args s) (gram_style s0) fy (length x0) 0 [0..<length fy] =
      Inr (style_weight (args s) * sum_list vs)"
    by (simp add: style_loss_loop_mses)
  from bf loop glen grows slice show ?thesis
    by (simp add: fr fy_def y_def)
qed

text \<open>The batch \<open>[3]\<close> of one row in the small environment, whose batch size is 2.\<close>

theorem partial_batch_sliced_without_error_witness:
  "\<exists>x features_y features_xc style_loss.
     batch_features demo_env (epoch_start demo_env demo_state) [3] =
       Inr (x, features_y, features_xc) \<and>
     (\<forall>m<length features_y.
        m < length (gram_style (epoch_start demo_env demo_state)) \<and>
        length (gram_style (epoch_start demo_env demo_state) ! m) = nat (batch_size demo_args) \<and>
        length (take (length [3 :: real]) (gram_style (epoch_start demo_env demo_state) ! m)) =
          length [3 :: real]) \<and>
     style_loss_loop demo_env (args (epoch_start demo_env demo_state))
       (gram_style (epoch_start demo_env demo_state)) features_y (length [3 :: real]) 0
       [0..<length features_y] = Inr style_loss"
proof -
  have B: "length [3 :: real] \<le> nat (batch_size demo_args)"
    by (simp add: demo_args_fields)
  show ?thesis
    by (rule partial_batch_sliced_without_error
          [OF demo_init_state epoch_start_frame demo_contract B])
qed

subsection \<open>C4: the order of the batches\<close>

lemma concat_batches_of: "0 < n \<Longrightarrow> concat (batches_of n xs) = xs"
proof (induction n xs rule: batches_of.induct)
  case (1 n xs)
  show ?case
  proof (cases "xs = []")
    case True
    then show ?thesis by (simp add: batches_of.simps)
  next
    case False
    with 1 show ?thesis by (subst batches_of.simps) simp
  qed
qed

lemma batches_of_lengths:
  "b \<in> set (batches_of n xs) \<Longrightarrow> 0 < length b \<and> length b \<le> n"
proof (induction n xs rule: batches_of.induct)
  case (1 n xs)
  show ?case
  proof (cases "n = 0 \<or> xs = []")
    case True
    with 1(2) show ?thesis by (simp add: batches_of.simps)
  next
    case False
    from 1(2) False have "b = take n xs \<or> b \<in> set (batches_of n (drop n xs))"
      by (subst (asm) batches_of.simps) simp
    with 1(1) False show ?thesis by auto
  qed
qed

lemma DataLoader_Inr:
  assumes "DataLoader ds bs kw = Inr ld"
  shows "0 < bs" and "ld_dataset ld = ds" and "ld_batch_size ld = bs" and "\<not> ld_shuffle ld"
  using assms by (auto simp: DataLoader_def split: if_splits)

text \<open>
  C4, as the code has it. Let the set-up have succeeded and let \<open>s\<close> be a state the loops
  can be in. The loader is built from the images \<^verbatim>\<open>ImageFolder\<close> returned, with the
  configured batch size, which is positive, and it does not shuffle: the batches an
  epoch visits are the dataset in its own order cut into pieces of the batch size,
  numbered from 0; put together they are the dataset; none is empty and none is longer
  than the batch size. Since \<open>s\<close> is any state of the run, every epoch visits the same
  batches in the same order.
\<close>

theorem batches_are_sequential:
  assumes init: "train_init env a w = Inr s0"
    and frame: "loop_frame s0 s"
  shows "ImageFolder env (dataset a) (image_size a) = Inr (train_dataset s) \<and>
         0 < batch_size a \<and>
         ld_batch_size (train_loader s) = batch_size a \<and>
         \<not> ld_shuffle (train_loader s) \<and>
         map snd (epoch_batches env s) = batches_of (nat (batch_size a)) (train_dataset s) \<and>
         map fst (epoch_batches env s) = [0..<length (epoch_batches env s)] \<and>
         concat (map snd (epoch_batches env s)) = train_dataset s \<and>
         (\<forall>b\<in>set (epoch_batches env s).
            0 < length (snd b) \<and> int (length (snd b)) \<le> batch_size a)"
proof -
  from frame have fr: "train_dataset s = train_dataset s0" "train_loader s = train_loader s0"
    by (simp_all add: loop_frame_def)
  note i = train_init_Inr [OF init]
  from i(3) i(1) have ds: "ImageFolder env (dataset a) (image_size a) = Inr (train_dataset s0)"
    by (simp add: select_backend_keeps)
  from i(4) i(1) have "DataLoader (train_dataset s0) (batch_size a) (make_kwargs (args s0)) =
      Inr (train_loader s0)"
    by (simp add: select_backend_keeps)
  note ld = DataLoader_Inr [OF this]
  have it: "loader_iter (randperm env) (train_loader s0) =
      batches_of (nat (batch_size a)) (train_dataset s0)"
    using ld by (simp add: loader_iter_def)
  have bs: "map snd (epoch_batches env s) = batches_of (nat (batch_size a)) (train_dataset s0)"
    by (simp add: epoch_batches_def fr it enumerate_eq_zip)
  have ix: "map fst (epoch_batches env s) = [0..<length (epoch_batches env s)]"
    by (simp add: epoch_batches_def enumerate_eq_zip)
  from ld(1) have cc: "concat (map snd (epoch_batches env s)) = train_dataset s0"
    by (simp add: bs concat_batches_of)
  have "\<forall>b\<in>set (epoch_batches env s). 0 < length (snd b) \<and> int (length (snd b)) \<le> batch_size a"
  proof
    fix b assume "b \<in> set (epoch_batches env s)"
    then have "snd b \<in> set (map snd (epoch_batches env s))" by simp
    then have "snd b \<in> set (batches_of (nat (batch_size a)) (train_dataset s0))"
      by (simp only: bs)
    from batches_of_lengths [OF this] ld(1)
    show "0 < length (snd b) \<and> int (length (snd b)) \<le> batch_size a" by auto
  qed
  with ds ld bs ix cc show ?thesis by (simp add: fr)
qed

text \<open>The small environment: three images, batch size 2.\<close>

theorem batches_are_sequential_witness:
  "ImageFolder demo_env (dataset demo_args) (image_size demo_args) =
     Inr (train_dataset demo_state) \<and>
   \<not> ld_shuffle (train_loader demo_state) \<and>
   map snd (epoch_batches demo_env demo_state) = [[1, 2], [3]] \<and>
   concat (map snd (epoch_batches demo_env demo_state)) = train_dataset demo_state"
proof -
  note t = batches_are_sequential [OF demo_init_state loop_frame_refl]
  from t have "ImageFolder demo_env (dataset demo_args) (image_size demo_args) =
      Inr (train_dataset demo_state)" "\<not> ld_shuffle (train_loader demo_state)"
    "concat (map snd (epoch_batches demo_env demo_state)) = train_dataset demo_state"
    by blast+
  moreover have "map snd (epoch_batches demo_env demo_state) = [[1, 2], [3]]"
    by (simp add: demo_epoch_batches)
  ultimately show ?thesis by blast
qed

text \<open>
  C4 as stated fails there: a shuffling loader, for which \<^verbatim>\<open>randperm\<close> draws the order
  2, 1, 0, would yield the batches \<open>[3, 2]\<close> and \<open>[1]\<close>; the loader of \<^verbatim>\<open>train\<close> yields
  \<open>[1, 2]\<close> and \<open>[3]\<close>, and its \<^verbatim>\<open>shuffle\<close> is off.
\<close>

theorem batches_not_shuffled_counterexample:
  "randperm demo_env 3 = [2, 1, 0] \<and>
   loader_iter (randperm demo_env) ((train_loader demo_state)\<lparr>ld_shuffle := True\<rparr>) =
     [[3, 2], [1]] \<and>
   map snd (epoch_batches demo_env demo_state) = [[1, 2], [3]] \<and>
   \<not> ld_shuffle (train_loader demo_state)"
proof -
  have u: "[0..<3] = [0, 1, 2]" by (simp add: upt_rec)
  have "batches_of 2 [3, 2, 1 :: real] = [[3, 2], [1]]"
    by (simp add: batches_of.simps)
  then show ?thesis
    by (simp add: demo_epoch_batches demo_state_fields loader_iter_def demo_env_fields u)
qed

subsection \<open>C5: what \<^verbatim>\<open>train\<close> does to \<^verbatim>\<open>args\<close>\<close>






subsection \<open>C6: the style Gram matrices\<close>

text \<open>
  C6. When the set-up succeeds, \<^verbatim>\<open>gram_style\<close> is the list of the Gram matrices of the
  activations of the style image, replicated to the batch size, preprocessed and
  mean-subtracted: it is computed there, before the first epoch. No batch changes it,
  whatever the state and whether the batch succeeds or raises; hence no run of batches
  and no run of epochs changes it. (Nothing in the loops assigns the variable, so it is
  computed once.)
\<close>

theorem gram_style_fixed_for_the_run:
  assumes "train_init env a w = Inr s0"
  shows "(\<exists>v style.
            load_vgg16 env (vgg_model_dir a) = Inr v \<and>
            tensor_load_rgbimage env (style_image a) (style_size a) None = Inr style \<and>
            gram_style s0 =
              map (gram_matrix env)
                (v (subtract_imagenet_mean_batch env
                     (preprocess_batch env (replicate (nat (batch_size a)) style))))) \<and>
         (\<forall>e s b. gram_style (state_of (train_batch env e s b)) = gram_style s) \<and>
         (\<forall>e s bs. gram_style (state_of (train_batches env e s bs)) = gram_style s) \<and>
         (\<forall>es. gram_style (state_of (train_epochs env s0 es)) = gram_style s0)"
proof -
  note i = train_init_Inr [OF assms]
  from i(5) i(6) i(1) have "\<exists>v style.
      load_vgg16 env (vgg_model_dir a) = Inr v \<and>
      tensor_load_rgbimage env (style_image a) (style_size a) None = Inr style \<and>
      gram_style s0 =
        map (gram_matrix env)
          (v (subtract_imagenet_mean_batch env
               (preprocess_batch env (replicate (nat (batch_size a)) style))))"
    by (auto simp: select_backend_keeps)
  moreover have "\<forall>e s b. gram_style (state_of (train_batch env e s b)) = gram_style s"
  proof (intro allI)
    fix e s b
    from train_batch_frame [of s env e b]
    show "gram_style (state_of (train_batch env e s b)) = gram_style s"
      by (simp only: loop_frame_def)
  qed
  moreover have "\<forall>e s bs. gram_style (state_of (train_batches env e s bs)) = gram_style s"
  proof (intro allI)
    fix e s bs
    from train_batches_frame [of s env e bs]
    show "gram_style (state_of (train_batches env e s bs)) = gram_style s"
      by (simp only: loop_frame_def)
  qed
  moreover have "\<forall>es. gram_style (state_of (train_epochs env s0 es)) = gram_style s0"
  proof (intro allI)
    fix es
    from train_epochs_frame [of s0 env es]
    show "gram_style (state_of (train_epochs env s0 es)) = gram_style s0"
      by (simp only: loop_frame_def)
  qed
  ultimately show ?thesis by blast
qed

text \<open>The small environment, before the first epoch and after two epochs.\<close>

theorem gram_style_fixed_for_the_run_witness:
  "gram_style demo_state = [[7, 7], [14, 14]] \<and>
   gram_style (state_of (train_epochs demo_env demo_state [0, 1])) = [[7, 7], [14, 14]]"
proof -
  from gram_style_fixed_for_the_run [OF demo_init_state]
  have "\<forall>es. gram_style (state_of (train_epochs demo_env demo_state es)) = gram_style demo_state"
    by blast
  then have "gram_style (state_of (train_epochs demo_env demo_state [0, 1])) = gram_style demo_state"
    by (rule spec)
  then show ?thesis by (simp only: demo_state_fields simp_thms)
qed

subsection \<open>C7: no CUDA device\<close>























subsection \<open>C8: the name of the checkpoint\<close>

lemma save_model_filename_args:
  assumes "epochs a' = epochs a" "content_weight a' = content_weight a"
    "style_weight a' = style_weight a"
  shows "save_model_filename env a' t = save_model_filename env a t"
  using assms by (simp add: save_model_filename_def)

lemma save_model_Done:
  assumes "save_model env s = Done r"
  shows "torch_save env (path_join (save_model_dir (args s))
           (save_model_filename env (args s) (ctime env (clock (world s))))) = None"
    and "r = (args s,
           print (CHR 0x0A # ''Done :)'')
             ((world s)\<lparr>clock := Suc (clock (world s)),
                checkpoints := (checkpoints (world s))
                  (path_join (save_model_dir (args s))
                     (save_model_filename env (args s) (ctime env (clock (world s)))) \<mapsto>
                   eval_mode env (transformer s))\<rparr>))"
  using assms
  by (auto simp: save_model_def Let_def time_ctime_def split: option.splits)

lemma train_Done:
  assumes "train env a w = Done r"
  obtains s0 s where "train_init env a w = Inr s0"
    and "train_epochs env s0 [0..<nat (epochs (args s0))] = Done s"
    and "save_model env s = Done r"
    and "epochs (args s) = epochs a" "content_weight (args s) = content_weight a"
        "style_weight (args s) = style_weight a" "save_model_dir (args s) = save_model_dir a"
proof (cases rule: train_cases [of env a w])
  case (init_fails er a' w')
  with assms show ?thesis by simp
next
  case (loop_fails s0 er s)
  with assms show ?thesis by simp
next
  case (loop_done s0 s)
  from train_epochs_frame [of s0 env "[0..<nat (epochs (args s0))]"] loop_done(2)
  have "args s = args s0" by (simp add: loop_frame_def)
  with train_init_Inr(1) [OF loop_done(1)]
  have "epochs (args s) = epochs a" "content_weight (args s) = content_weight a"
    "style_weight (args s) = style_weight a" "save_model_dir (args s) = save_model_dir a"
    by (simp_all add: select_backend_keeps)
  with that loop_done assms show ?thesis by simp
qed

lemma sublist_mid: "ys = ps @ xs @ ss \<Longrightarrow> sublist xs ys"
  by (auto simp: sublist_def)

lemma str_int_small: "str_int 0 = ''0''" "str_int 1 = ''1''"
  by (simp_all add: str_int_def str_nat.simps)

text \<open>
  C8. When \<^verbatim>\<open>train\<close> returns, a checkpoint has been written in the directory
  \<^verbatim>\<open>args.save_model_dir\<close> under the name \<open>save_model_filename env a t\<close>, where \<open>t\<close> is a
  reading of \<^verbatim>\<open>time.ctime()\<close>: the name is a function of the configured epoch count,
  that time stamp and the two weights, namely \<^verbatim>\<open>epoch_\<close>, the epoch count in decimal,
  an underscore, the time stamp with underscores for blanks, an underscore, the content
  weight as \<^verbatim>\<open>str\<close> prints it, an underscore, the style weight likewise, and
  \<^verbatim>\<open>.model\<close>. It starts with \<^verbatim>\<open>epoch_\<close> and the epoch count and contains the time stamp
  and both weights; for a run with 1 epoch it contains \<^verbatim>\<open>epoch_1\<close>.
\<close>

theorem checkpoint_name_encodes_run:
  assumes "train env a w = Done r"
  shows "\<exists>n m. checkpoints (snd r)
             (path_join (save_model_dir a) (save_model_filename env a (ctime env n))) = Some m \<and>
           save_model_filename env a (ctime env n) =
             ''epoch_'' @ str_int (epochs a) @ ''_'' @ replace_spaces (ctime env n) @ ''_'' @
             str_float env (content_weight a) @ ''_'' @ str_float env (style_weight a) @
             ''.model'' \<and>
           prefix (''epoch_'' @ str_int (epochs a)) (save_model_filename env a (ctime env n)) \<and>
           sublist (replace_spaces (ctime env n)) (save_model_filename env a (ctime env n)) \<and>
           sublist (str_float env (content_weight a))
             (save_model_filename env a (ctime env n)) \<and>
           sublist (str_float env (style_weight a))
             (save_model_filename env a (ctime env n)) \<and>
           (epochs a = 1 \<longrightarrow>
              sublist ''epoch_1'' (save_model_filename env a (ctime env n)))"
proof -
  from assms obtain s0 s where sv: "save_model env s = Done r"
    and a: "epochs (args s) = epochs a" "content_weight (args s) = content_weight a"
      "style_weight (args s) = style_weight a" "save_model_dir (args s) = save_model_dir a"
    by (rule train_Done)
  let ?n = "clock (world s)"
  let ?name = "save_model_filename env a (ctime env ?n)"
  have nm: "save_model_filename env (args s) (ctime env ?n) = ?name"
    using a(1-3) by (rule save_model_filename_args)
  from save_model_Done(2) [OF sv]
  have 1: "checkpoints (snd r) (path_join (save_model_dir a) ?name) =
      Some (eval_mode env (transformer s))"
    by (simp add: nm a print_def)
  have 2: "?name = ''epoch_'' @ str_int (epochs a) @ ''_'' @ replace_spaces (ctime env ?n) @
      ''_'' @ str_float env (content_weight a) @ ''_'' @ str_float env (style_weight a) @
      ''.model''"
    by (simp add: save_model_filename_def)
  have 3: "prefix (''epoch_'' @ str_int (epochs a)) ?name"
    by (simp add: save_model_filename_def)
  have 4: "sublist (replace_spaces (ctime env ?n)) ?name"
    by (rule sublist_mid [where ps = "''epoch_'' @ str_int (epochs a) @ ''_''"
          and ss = "''_'' @ str_float env (content_weight a) @ ''_'' @
                    str_float env (style_weight a) @ ''.model''"])
       (simp add: save_model_filename_def)
  have 5: "sublist (str_float env (content_weight a)) ?name"
    by (rule sublist_mid [where ps = "''epoch_'' @ str_int (epochs a) @ ''_'' @
                    replace_spaces (ctime env ?n) @ ''_''"
          and ss = "''_'' @ str_float env (style_weight a) @ ''.model''"])
       (simp add: save_model_filename_def)
  have 6: "sublist (str_float env (style_weight a)) ?name"
    by (rule sublist_mid [where ps = "''epoch_'' @ str_int (epochs a) @ ''_'' @
                    replace_spaces (ctime env ?n) @ ''_'' @
                    str_float env (content_weight a) @ ''_''"
          and ss = "''.model''"])
       (simp add: save_model_filename_def)
  have 7: "epochs a = 1 \<longrightarrow> sublist ''epoch_1'' ?name"
  proof
    assume "epochs a = 1"
    with 3 have "prefix ''epoch_1'' ?name" by (simp add: str_int_small)
    then show "sublist ''epoch_1'' ?name" by (rule prefix_imp_sublist)
  qed
  from 1 2 3 4 5 6 7 show ?thesis by blast
qed

text \<open>The run of the small environment: one epoch, the weights 2 and 5.\<close>

lemma demo_run_returns: "raised (train demo_env demo_args demo_world) = None"
proof -
  have u: "[0..<nat (epochs (args demo_state))] = [0]"
    by (simp add: demo_state_fields demo_args_fields)
  have "raised (train_batches demo_env 0 (epoch_start demo_env demo_state)
          [(0, [1, 2]), (1, [3])]) = None"
    by (simp add: train_batch_def batch_losses_def batch_features_def content_loss_of_def
          content_mse_def layer_mse_def index_def demo_mse_def Let_def log_progress_def
          apply_losses_def time_ctime_def demo_env_fields demo_args_fields demo_start_fields
          upt_rec)
  then obtain s where s: "train_batches demo_env 0 (epoch_start demo_env demo_state)
          (epoch_batches demo_env demo_state) = Done s"
    unfolding demo_epoch_batches by (metis outcome_Done)
  then have "train demo_env demo_args demo_world = save_model demo_env s"
    by (simp add: train_def demo_init_state u)
  then show ?thesis
    by (simp add: save_model_def Let_def split_def demo_env_fields)
qed


lemma demo_filename:
  "save_model_filename demo_env demo_args (ctime demo_env n) =
     ''epoch_1_Wed_Nov__4_12:00:00_2026_2.0_5.0.model''"
  by (simp add: save_model_filename_def demo_env_fields demo_args_fields str_int_small
        replace_spaces_def)

theorem checkpoint_name_encodes_run_witness:
  "\<exists>m. checkpoints (snd (state_of (train demo_env demo_args demo_world)))
          ''out/epoch_1_Wed_Nov__4_12:00:00_2026_2.0_5.0.model'' = Some m"
proof -
  have d: "train demo_env demo_args demo_world =
      Done (state_of (train demo_env demo_args demo_world))"
    using demo_run_returns by (rule outcome_Done)
  from checkpoint_name_encodes_run [OF d] obtain n m where
    "checkpoints (snd (state_of (train demo_env demo_args demo_world)))
       (path_join (save_model_dir demo_args)
          (save_model_filename demo_env demo_args (ctime demo_env n))) = Some m"
    by blast
  then show ?thesis
    unfolding demo_filename by (simp add: path_join_def demo_args_fields)
qed

subsection \<open>C9: exit status 1\<close>

lemma exit_code_SystemExit: "exit_code (Abort (SystemExit n) s) = n"
  by (simp add: exit_code_def)

lemma check_paths_fails:
  assumes "(vgg_model_dir a \<notin> set (dirs w) \<and>
            makedirs env (dirs w) (vgg_model_dir a) = Inl (OSError msg)) \<or>
           (\<exists>w1. ensure_dir env (vgg_model_dir a) w = Inr w1 \<and>
              save_model_dir a \<notin> set (dirs w1) \<and>
              makedirs env (dirs w1) (save_model_dir a) = Inl (OSError msg))"
  shows "\<exists>w1. check_paths env a w = Abort (SystemExit 1) (print msg w1) \<and>
           stdout w1 = stdout w \<and> clock w1 = clock w \<and>
           checkpoints w1 = checkpoints w \<and> images w1 = images w"
  using assms
proof
  assume "vgg_model_dir a \<notin> set (dirs w) \<and>
      makedirs env (dirs w) (vgg_model_dir a) = Inl (OSError msg)"
  then have "check_paths env a w = Abort (SystemExit 1) (print msg w)"
    by (simp add: check_paths_def ensure_dir_def on_oserror_def)
  then show ?thesis by blast
next
  assume "\<exists>w1. ensure_dir env (vgg_model_dir a) w = Inr w1 \<and>
      save_model_dir a \<notin> set (dirs w1) \<and>
      makedirs env (dirs w1) (save_model_dir a) = Inl (OSError msg)"
  then obtain w1 where 1: "ensure_dir env (vgg_model_dir a) w = Inr w1"
    and 2: "save_model_dir a \<notin> set (dirs w1)"
      "makedirs env (dirs w1) (save_model_dir a) = Inl (OSError msg)"
    by blast
  from 1 2 have "check_paths env a w = Abort (SystemExit 1) (print msg w1)"
    by (simp add: check_paths_def ensure_dir_def on_oserror_def)
  moreover from 1 have "stdout w1 = stdout w \<and> clock w1 = clock w \<and>
      checkpoints w1 = checkpoints w \<and> images w1 = images w"
    by (auto simp: ensure_dir_def split: if_splits sum.splits)
  ultimately show ?thesis by blast
qed

text \<open>
  C9. With no subcommand \<^verbatim>\<open>main\<close> prints the error and exits with status 1, and
  the world is otherwise untouched. When one of the two directories does not exist and
  \<^verbatim>\<open>os.makedirs\<close> raises an \<^verbatim>\<open>OSError\<close> for it (the first one, or the second one after
  the first exists or was created), \<^verbatim>\<open>main\<close> for the subcommand \<^verbatim>\<open>train\<close> exits with
  status 1 having printed the message of the exception and nothing else: the clock
  was not read, no checkpoint and no image was written, so \<^verbatim>\<open>train\<close> did not start.
\<close>

theorem exit_one_without_work:
  "main env NoSubcommand w =
     Abort (SystemExit 1) (print ''ERROR: specify either train or eval'' w) \<and>
   exit_code (main env NoSubcommand w) = 1 \<and>
   stdout (state_of (main env NoSubcommand w)) =
     stdout w @ [''ERROR: specify either train or eval''] \<and>
   clock (state_of (main env NoSubcommand w)) = clock w \<and>
   dirs (state_of (main env NoSubcommand w)) = dirs w \<and>
   checkpoints (state_of (main env NoSubcommand w)) = checkpoints w \<and>
   images (state_of (main env NoSubcommand w)) = images w \<and>
   ((vgg_model_dir a \<notin> set (dirs w) \<and>
     makedirs env (dirs w) (vgg_model_dir a) = Inl (OSError msg)) \<or>
    (\<exists>w1. ensure_dir env (vgg_model_dir a) w = Inr w1 \<and>
       save_model_dir a \<notin> set (dirs w1) \<and>
       makedirs env (dirs w1) (save_model_dir a) = Inl (OSError msg)) \<longrightarrow>
    raised (main env (TrainCmd a) w) = Some (SystemExit 1) \<and>
    exit_code (main env (TrainCmd a) w) = 1 \<and>
    stdout (state_of (main env (TrainCmd a) w)) = stdout w @ [msg] \<and>
    clock (state_of (main env (TrainCmd a) w)) = clock w \<and>
    checkpoints (state_of (main env (TrainCmd a) w)) = checkpoints w \<and>
    images (state_of (main env (TrainCmd a) w)) = images w)"
proof -
  have none: "main env NoSubcommand w =
      Abort (SystemExit 1) (print ''ERROR: specify either train or eval'' w)"
    by (simp add: main_def)
  have dir: "raised (main env (TrainCmd a) w) = Some (SystemExit 1) \<and>
      exit_code (main env (TrainCmd a) w) = 1 \<and>
      stdout (state_of (main env (TrainCmd a) w)) = stdout w @ [msg] \<and>
      clock (state_of (main env (TrainCmd a) w)) = clock w \<and>
      checkpoints (state_of (main env (TrainCmd a) w)) = checkpoints w \<and>
      images (state_of (main env (TrainCmd a) w)) = images w"
    if "(vgg_model_dir a \<notin> set (dirs w) \<and>
          makedirs env (dirs w) (vgg_model_dir a) = Inl (OSError msg)) \<or>
        (\<exists>w1. ensure_dir env (vgg_model_dir a) w = Inr w1 \<and>
           save_model_dir a \<notin> set (dirs w1) \<and>
           makedirs env (dirs w1) (save_model_dir a) = Inl (OSError msg))"
  proof -
    from check_paths_fails [OF that] obtain w1 where
      "check_paths env a w = Abort (SystemExit 1) (print msg w1)"
      "stdout w1 = stdout w" "clock w1 = clock w"
      "checkpoints w1 = checkpoints w" "images w1 = images w"
      by blast
    then show ?thesis
      by (simp add: main_def exit_code_def print_def)
  qed
  from none dir show ?thesis
    by (simp add: exit_code_def print_def)
qed

text \<open>In the small environment the directory \<^verbatim>\<open>ro\<close> cannot be created.\<close>

theorem exit_one_without_work_witness:
  "exit_code (main demo_env NoSubcommand demo_world) = 1 \<and>
   exit_code (main demo_env (TrainCmd (demo_args\<lparr>vgg_model_dir := ''ro''\<rparr>)) demo_world) = 1 \<and>
   stdout (state_of (main demo_env (TrainCmd (demo_args\<lparr>vgg_model_dir := ''ro''\<rparr>)) demo_world)) =
     [''Permission denied''] \<and>
   checkpoints (state_of (main demo_env (TrainCmd (demo_args\<lparr>vgg_model_dir := ''ro''\<rparr>)) demo_world)) =
     Map.empty"
proof -
  have h: "vgg_model_dir (demo_args\<lparr>vgg_model_dir := ''ro''\<rparr>) \<notin> set (dirs demo_world) \<and>
      makedirs demo_env (dirs demo_world) (vgg_model_dir (demo_args\<lparr>vgg_model_dir := ''ro''\<rparr>)) =
        Inl (OSError ''Permission denied'')"
    by (simp add: demo_world_def demo_env_fields)
  have w: "stdout demo_world = []" "checkpoints demo_world = Map.empty"
    by (simp_all add: demo_world_def)
  from exit_one_without_work
    [of demo_env demo_world "demo_args\<lparr>vgg_model_dir := ''ro''\<rparr>" "''Permission denied''"] h
  have "exit_code (main demo_env NoSubcommand demo_world) = 1"
    "exit_code (main demo_env (TrainCmd (demo_args\<lparr>vgg_model_dir := ''ro''\<rparr>)) demo_world) = 1"
    "stdout (state_of (main demo_env (TrainCmd (demo_args\<lparr>vgg_model_dir := ''ro''\<rparr>)) demo_world)) =
       stdout demo_world @ [''Permission denied'']"
    "checkpoints (state_of (main demo_env (TrainCmd (demo_args\<lparr>vgg_model_dir := ''ro''\<rparr>)) demo_world)) =
       checkpoints demo_world"
    by blast+
  then show ?thesis by (simp add: w)
qed

subsection \<open>C10: no epochs\<close>




end
